theory Spec2Isabelle
  imports Main "HOL-Library.Word"
begin

section \<open>The MinIO file provider (backend/src/modules/minio-file/service.ts)\<close>

subsection \<open>Values of the run time\<close>

text \<open>
  A value thrown by a library call is an \<open>Error\<close> object; the service reads nothing of
  it but its \<open>message\<close>.
\<close>

datatype js_error = Error (message: string)

text \<open>The two members of \<open>MedusaError.Types\<close> that the service uses.\<close>

datatype MedusaErrorType = INVALID_DATA | UNEXPECTED_STATE

text \<open>
  What a method can throw: a \<open>MedusaError\<close> built by the service, or the library's own
  error object passed on as it is (\<open>throw error\<close> in \<open>initializeBucket\<close>).
\<close>

datatype thrown = MedusaError MedusaErrorType string | Raw js_error

text \<open>
  The outcome of an \<open>async\<close> method: its promise resolves, rejects, or is never settled.
\<close>

datatype 'a promise = Resolved 'a | Rejected thrown | Pending

text \<open>
  A string field of a DTO is \<open>None\<close> when it is \<open>undefined\<close> or \<open>null\<close>. The test
  \<open>!x\<close> of the source holds for these and for the empty string.
\<close>

definition falsy :: "string option \<Rightarrow> bool" where
  "falsy v = (case v of None \<Rightarrow> True | Some s \<Rightarrow> s = [])"

text \<open>
  The string in a field that has passed the test; the service reads it nowhere else.
\<close>

definition str :: "string option \<Rightarrow> string" where
  "str v = (case v of Some s \<Rightarrow> s | None \<Rightarrow> [])"

text \<open>
  \<open>a || b\<close> on an optional string with a string default.
\<close>

definition or_default :: "string option \<Rightarrow> string \<Rightarrow> string" where
  "or_default v d = (case v of None \<Rightarrow> d | Some s \<Rightarrow> if s = [] then d else s)"

text \<open>
  A JavaScript number as far as the port of an endpoint needs it: an integer, or \<open>NaN\<close>
  when \<open>parseInt\<close> finds no digits.
\<close>

datatype jsnum = Num int | NaN

text \<open>
  A \<open>Buffer\<close> is a list of bytes. A string holding binary content is a list of 16-bit
  code units; \<open>Buffer.from(s, 'binary')\<close> keeps the low byte of each.
\<close>

type_synonym buffer = "8 word list"

type_synonym binary_string = "16 word list"

definition Buffer_from_binary :: "binary_string \<Rightarrow> buffer" where
  "Buffer_from_binary s = map ucast s"

definition Buffer_concat :: "buffer list \<Rightarrow> buffer" where
  "Buffer_concat chunks = concat chunks"

text \<open>
  A \<open>Readable\<close> is the sequence of events it emits to its listeners.
\<close>

datatype stream_event = Data buffer | End | StreamError js_error

type_synonym Readable = "stream_event list"

text \<open>The object literal handed to \<open>JSON.stringify\<close>.\<close>

datatype json = JString string | JArray "json list" | JObject "(string \<times> json) list"

subsection \<open>The object-store client and the world around the service\<close>

text \<open>
  Every request the service sends to the client, with its arguments in the order of the
  source.
\<close>

datatype call =
    BucketExists string
  | MakeBucket string
  | SetBucketPolicy string string
  | PutObject string string buffer nat "(string \<times> string) list"
  | RemoveObject string string
  | PresignedGetObject string string nat
  | PresignedPutObject string string nat
  | GetObject string string

text \<open>
  The \<open>minio\<close> client is a library outside the repository: its methods are parameters.
  Each takes the state \<open>'s\<close> of the outside world (the object store, the clock, the
  entropy source) and returns the new one with either the error it throws or its value.
\<close>

record 's Client =
  bucketExists :: "string \<Rightarrow> 's \<Rightarrow> (js_error + bool) \<times> 's"
  makeBucket :: "string \<Rightarrow> 's \<Rightarrow> (js_error + unit) \<times> 's"
  setBucketPolicy :: "string \<Rightarrow> string \<Rightarrow> 's \<Rightarrow> (js_error + unit) \<times> 's"
  putObject ::
    "string \<Rightarrow> string \<Rightarrow> buffer \<Rightarrow> nat \<Rightarrow> (string \<times> string) list \<Rightarrow> 's \<Rightarrow> (js_error + unit) \<times> 's"
  removeObject :: "string \<Rightarrow> string \<Rightarrow> 's \<Rightarrow> (js_error + unit) \<times> 's"
  presignedGetObject :: "string \<Rightarrow> string \<Rightarrow> nat \<Rightarrow> 's \<Rightarrow> (js_error + string) \<times> 's"
  presignedPutObject :: "string \<Rightarrow> string \<Rightarrow> nat \<Rightarrow> 's \<Rightarrow> (js_error + string) \<times> 's"
  getObject :: "string \<Rightarrow> string \<Rightarrow> 's \<Rightarrow> (js_error + Readable) \<times> 's"

datatype level = Info | Warn | Err

text \<open>
  The world as the service sees it: the outside state, the requests sent to the client so
  far (oldest first), and the lines written to the injected logger.
\<close>

record 's world =
  store :: 's
  calls :: "call list"
  logs :: "(level \<times> string) list"

definition logger :: "level \<Rightarrow> string \<Rightarrow> 's world \<Rightarrow> 's world" where
  "logger l m w = w\<lparr>logs := logs w @ [(l, m)]\<rparr>"

text \<open>
  \<open>await this.client.m(...)\<close>: the request is recorded and the client's method runs on
  the outside state.
\<close>

definition invoke ::
  "call \<Rightarrow> ('s \<Rightarrow> (js_error + 'a) \<times> 's) \<Rightarrow> 's world \<Rightarrow> (js_error + 'a) \<times> 's world" where
  "invoke c m w =
     (case m (store w) of (r, s') \<Rightarrow> (r, w\<lparr>store := s', calls := calls w @ [c]\<rparr>))"

datatype URL = URL (url_protocol: string) (url_hostname: string) (url_port: string) (url_host: string)

datatype ClientOptions =
  ClientOptions (co_endPoint: string) (co_port: jsnum) (co_useSSL: bool)
    (co_accessKey: string) (co_secretKey: string)

record ParsedPath =
  root :: string
  dir :: string
  base :: string
  ext :: string
  name :: string

text \<open>
  The library functions the service calls besides the client's methods: \<open>new URL\<close>,
  \<open>parseInt(_, 10)\<close>, the conversion of a number inside a template literal,
  \<open>new Client\<close>, \<open>JSON.stringify\<close>, \<open>path.parse\<close> and \<open>ulid\<close>. None of them is code
  of the repository; they are parameters of the model. \<open>new URL\<close> and \<open>new Client\<close>
  may throw; the others return a value on the strings the declared types allow.
  \<open>ulid\<close> reads the clock and the entropy source, so it takes and returns the outside
  state.
\<close>

record 's env =
  new_URL :: "string \<Rightarrow> js_error + URL"
  parseInt :: "string \<Rightarrow> jsnum"
  Number_toString :: "jsnum \<Rightarrow> string"
  new_Client :: "ClientOptions \<Rightarrow> js_error + 's Client"
  JSON_stringify :: "json \<Rightarrow> string"
  path_parse :: "string \<Rightarrow> ParsedPath"
  ulid :: "'s \<Rightarrow> string \<times> 's"

subsection \<open>Configuration and construction\<close>

text \<open>
  \<open>MinioFileProviderOptions\<close> and \<open>MinioServiceConfig\<close> have the same fields; the
  constructor copies one into the other.
\<close>

record MinioServiceConfig =
  endPoint :: string
  accessKey :: string
  secretKey :: string
  cfg_bucket :: "string option"
  cfg_publicEndpoint :: "string option"

type_synonym MinioFileProviderOptions = MinioServiceConfig

definition DEFAULT_BUCKET :: string where
  "DEFAULT_BUCKET = ''medusa-media''"

record ParsedEndpoint =
  protocol :: string
  hostname :: string
  port :: jsnum
  host :: string

record 's MinioFileProviderService =
  config0 :: MinioServiceConfig
  client :: "'s Client"
  bucket :: string
  publicEndpoint :: string

text \<open>\<open>s.split(c)\<close> for a one-character separator.\<close>

fun split_on :: "char \<Rightarrow> string \<Rightarrow> string list" where
  "split_on c [] = [[]]"
| "split_on c (x # xs) =
     (if x = c then [] # split_on c xs
      else (case split_on c xs of [] \<Rightarrow> [[x]] | p # ps \<Rightarrow> (x # p) # ps))"

definition startsWith :: "string \<Rightarrow> string \<Rightarrow> bool" where
  "startsWith s p = (take (length p) s = p)"

definition parseEndpoint :: "'s env \<Rightarrow> string \<Rightarrow> 's world \<Rightarrow> ParsedEndpoint \<times> 's world" where
  "parseEndpoint env endpoint w =
     (let urlString =
            (if \<not> startsWith endpoint ''http://'' \<and> \<not> startsWith endpoint ''https://''
             then ''https://'' @ endpoint else endpoint)
      in case new_URL env urlString of
           Inr url \<Rightarrow>
             (let defaultPort = (if url_protocol url = ''https:'' then Num 443 else Num 80);
                  thePort = (if url_port url \<noteq> [] then parseInt env (url_port url) else defaultPort)
              in (\<lparr>protocol = url_protocol url, hostname = url_hostname url,
                   port = thePort, host = url_host url\<rparr>, w))
         | Inl error \<Rightarrow>
             (let w1 = logger Warn
                         (''Failed to parse endpoint URL, using fallback: '' @ message error) w;
                  parts = split_on CHR '':'' endpoint;
                  theHost = (case parts of [] \<Rightarrow> [] | h # _ \<Rightarrow> h);
                  thePort = (case parts of _ # p # _ \<Rightarrow> parseInt env p | _ \<Rightarrow> Num 443)
              in (\<lparr>protocol = ''https:'', hostname = theHost, port = thePort,
                   host = (if thePort = Num 443 then theHost
                           else theHost @ '':'' @ Number_toString env thePort)\<rparr>, w1)))"

definition public_read_policy :: "string \<Rightarrow> json" where
  "public_read_policy b =
     JObject [(''Version'', JString ''2012-10-17''),
              (''Statement'', JArray [JObject
                 [(''Sid'', JString ''PublicRead''),
                  (''Effect'', JString ''Allow''),
                  (''Principal'', JString ''*''),
                  (''Action'', JArray [JString ''s3:GetObject'']),
                  (''Resource'', JArray [JString (''arn:aws:s3:::'' @ b @ ''/*'')])]])]"

text \<open>
  \<open>initializeBucket\<close> as one run, with nothing else running between its awaits. The
  outer \<open>catch\<close> logs and throws the client's error on as it is; the inner one, around
  the policy of an existing bucket, logs a warning and swallows it.
\<close>

definition initializeBucket ::
  "'s env \<Rightarrow> 's MinioFileProviderService \<Rightarrow> 's world \<Rightarrow> unit promise \<times> 's world" where
  "initializeBucket env svc w =
     (let b = bucket svc;
          rethrow = (\<lambda>error w'.
             (Rejected (Raw error),
              logger Err (''Error initializing bucket: '' @ message error) w'))
      in case invoke (BucketExists b) (bucketExists (client svc) b) w of
           (Inl error, w1) \<Rightarrow> rethrow error w1
         | (Inr exists, w1) \<Rightarrow>
             if \<not> exists then
               (case invoke (MakeBucket b) (makeBucket (client svc) b) w1 of
                  (Inl error, w2) \<Rightarrow> rethrow error w2
                | (Inr _, w2) \<Rightarrow>
                    (let w3 = logger Info (''Created bucket: '' @ b) w2;
                         policy = JSON_stringify env (public_read_policy b)
                     in case invoke (SetBucketPolicy b policy)
                               (setBucketPolicy (client svc) b policy) w3 of
                          (Inl error, w4) \<Rightarrow> rethrow error w4
                        | (Inr _, w4) \<Rightarrow>
                            (Resolved (),
                             logger Info (''Set public read policy for bucket: '' @ b) w4)))
             else
               (let w2 = logger Info (''Using existing bucket: '' @ b) w1;
                    policy = JSON_stringify env (public_read_policy b)
                in case invoke (SetBucketPolicy b policy)
                          (setBucketPolicy (client svc) b policy) w2 of
                     (Inl policyError, w3) \<Rightarrow>
                       (Resolved (),
                        logger Warn (''Failed to update policy for existing bucket: ''
                                      @ message policyError) w3)
                   | (Inr _, w3) \<Rightarrow>
                       (Resolved (),
                        logger Info (''Updated public read policy for existing bucket: '' @ b) w3)))"

text \<open>
  \<open>initializeBucket\<close> is an \<open>async\<close> function that the constructor starts and does
  not await. Its body runs up to the first \<open>await\<close> at once, which sends
  \<open>bucketExists\<close>; the rest runs later, one piece per \<open>await\<close>, each in the world
  that whatever ran in between has left. A pending task holds the answer it waits for.
\<close>

datatype init_task =
    AwaitBucketExists "js_error + bool"
  | AwaitMakeBucket "js_error + unit"
  | AwaitPolicyOfNewBucket "js_error + unit"
  | AwaitPolicyOfExistingBucket "js_error + unit"
  | Settled "unit promise"

definition initializeBucket_start ::
  "'s MinioFileProviderService \<Rightarrow> 's world \<Rightarrow> init_task \<times> 's world" where
  "initializeBucket_start svc w =
     (case invoke (BucketExists (bucket svc)) (bucketExists (client svc) (bucket svc)) w of
        (answer, w1) \<Rightarrow> (AwaitBucketExists answer, w1))"

definition initializeBucket_resume ::
  "'s env \<Rightarrow> 's MinioFileProviderService \<Rightarrow> init_task \<Rightarrow> 's world \<Rightarrow> init_task \<times> 's world" where
  "initializeBucket_resume env svc task w =
     (let b = bucket svc;
          policy = JSON_stringify env (public_read_policy b);
          rethrow = (\<lambda>error.
             (Settled (Rejected (Raw error)),
              logger Err (''Error initializing bucket: '' @ message error) w))
      in case task of
           AwaitBucketExists (Inl error) \<Rightarrow> rethrow error
         | AwaitBucketExists (Inr exists) \<Rightarrow>
             if \<not> exists then
               (case invoke (MakeBucket b) (makeBucket (client svc) b) w of
                  (answer, w1) \<Rightarrow> (AwaitMakeBucket answer, w1))
             else
               (case invoke (SetBucketPolicy b policy) (setBucketPolicy (client svc) b policy)
                       (logger Info (''Using existing bucket: '' @ b) w) of
                  (answer, w1) \<Rightarrow> (AwaitPolicyOfExistingBucket answer, w1))
         | AwaitMakeBucket (Inl error) \<Rightarrow> rethrow error
         | AwaitMakeBucket (Inr _) \<Rightarrow>
             (case invoke (SetBucketPolicy b policy) (setBucketPolicy (client svc) b policy)
                     (logger Info (''Created bucket: '' @ b) w) of
                (answer, w1) \<Rightarrow> (AwaitPolicyOfNewBucket answer, w1))
         | AwaitPolicyOfNewBucket (Inl error) \<Rightarrow> rethrow error
         | AwaitPolicyOfNewBucket (Inr _) \<Rightarrow>
             (Settled (Resolved ()),
              logger Info (''Set public read policy for bucket: '' @ b) w)
         | AwaitPolicyOfExistingBucket (Inl policyError) \<Rightarrow>
             (Settled (Resolved ()),
              logger Warn (''Failed to update policy for existing bucket: ''
                           @ message policyError) w)
         | AwaitPolicyOfExistingBucket (Inr _) \<Rightarrow>
             (Settled (Resolved ()),
              logger Info (''Updated public read policy for existing bucket: '' @ b) w)
         | Settled p \<Rightarrow> (Settled p, w))"

text \<open>
  The \<open>.catch\<close> handler the constructor attaches to the promise of
  \<open>initializeBucket\<close>: it runs when that promise rejects and logs the error.
\<close>

definition initializeBucket_catch :: "unit promise \<Rightarrow> 's world \<Rightarrow> 's world" where
  "initializeBucket_catch p w =
     (case p of
        Rejected t \<Rightarrow>
          logger Err (''Failed to initialize MinIO bucket: ''
                      @ (case t of Raw error \<Rightarrow> message error | MedusaError _ m \<Rightarrow> m)) w
      | _ \<Rightarrow> w)"

text \<open>
  The constructor. \<open>new Client\<close> may throw, and then so does the constructor. Otherwise
  it starts \<open>initializeBucket\<close> and returns the service at once, with the task still
  pending: of the bucket requests only \<open>bucketExists\<close> has been sent when the
  constructor returns.
\<close>

definition constructor ::
  "'s env \<Rightarrow> MinioFileProviderOptions \<Rightarrow> 's world
   \<Rightarrow> (js_error + 's MinioFileProviderService \<times> init_task) \<times> 's world" where
  "constructor env options w =
     (let cfg = \<lparr>endPoint = endPoint options, accessKey = accessKey options,
                    secretKey = secretKey options, cfg_bucket = cfg_bucket options,
                    cfg_publicEndpoint = cfg_publicEndpoint options\<rparr>;
          theBucket = or_default (cfg_bucket cfg) DEFAULT_BUCKET
      in case parseEndpoint env (endPoint cfg) w of (endpointUrl, w1) \<Rightarrow>
        (let thePublicEndpoint =
               or_default (cfg_publicEndpoint cfg)
                 (protocol endpointUrl @ ''//'' @ host endpointUrl);
             w2 = logger Info (''MinIO service initialized with bucket: '' @ theBucket) w1;
             w3 = logger Info (''MinIO internal endpoint: '' @ endPoint cfg) w2;
             w4 = logger Info (''MinIO public endpoint: '' @ thePublicEndpoint) w3
         in case new_Client env
                   (ClientOptions (hostname endpointUrl) (port endpointUrl)
                      (protocol endpointUrl = ''https:'') (accessKey cfg) (secretKey cfg)) of
              Inl error \<Rightarrow> (Inl error, w4)
            | Inr c \<Rightarrow>
                (let svc = \<lparr>config0 = cfg, client = c, bucket = theBucket,
                            publicEndpoint = thePublicEndpoint\<rparr>
                 in case initializeBucket_start svc w4 of
                      (task, w5) \<Rightarrow> (Inr (svc, task), w5))))"

subsection \<open>The file operations\<close>

text \<open>
  The DTOs of the framework, with the fields the service reads. A field that the service
  tests before use is optional here, whatever the declared type says. Both upload DTOs
  have a \<open>filename\<close>; \<open>ProviderDeleteFileDTO\<close> and \<open>ProviderGetFileDTO\<close> both consist
  of a \<open>fileKey\<close>.
\<close>

record ProviderGetPresignedUploadUrlDTO =
  filename :: "string option"

record ProviderUploadFileDTO = ProviderGetPresignedUploadUrlDTO +
  mimeType :: string
  content :: binary_string

record ProviderGetFileDTO =
  fileKey :: "string option"

type_synonym ProviderDeleteFileDTO = ProviderGetFileDTO

record ProviderFileResultDTO =
  url :: string
  key :: string

definition upload ::
  "'s env \<Rightarrow> 's MinioFileProviderService \<Rightarrow> ProviderUploadFileDTO option \<Rightarrow> 's world
   \<Rightarrow> ProviderFileResultDTO promise \<times> 's world" where
  "upload env svc file w =
     (case file of
        None \<Rightarrow> (Rejected (MedusaError INVALID_DATA ''No file provided''), w)
      | Some f \<Rightarrow>
          if falsy (filename f) then
            (Rejected (MedusaError INVALID_DATA ''No filename provided''), w)
          else
            (let fname = str (filename f);
                 parsedFilename = path_parse env fname
             in case ulid env (store w) of (u, s1) \<Rightarrow>
               (let fk = name parsedFilename @ ''-'' @ u @ ext parsedFilename;
                    buf = Buffer_from_binary (content f);
                    meta = [(''Content-Type'', mimeType f),
                            (''x-amz-meta-original-filename'', fname),
                            (''x-amz-acl'', ''public-read'')]
                in case invoke (PutObject (bucket svc) fk buf (length buf) meta)
                          (putObject (client svc) (bucket svc) fk buf (length buf) meta)
                          (w\<lparr>store := s1\<rparr>) of
                     (Inr _, w1) \<Rightarrow>
                       (let theUrl = publicEndpoint svc @ ''/'' @ bucket svc @ ''/'' @ fk;
                            w2 = logger Info
                                   (''Successfully uploaded file '' @ fk @ '' to MinIO bucket ''
                                    @ bucket svc) w1;
                            w3 = logger Info (''Generated public URL: '' @ theUrl) w2
                        in (Resolved \<lparr>url = theUrl, key = fk\<rparr>, w3))
                   | (Inl error, w1) \<Rightarrow>
                       (Rejected (MedusaError UNEXPECTED_STATE
                                    (''Failed to upload file: '' @ message error)),
                        logger Err (''Failed to upload file: '' @ message error) w1))))"

text \<open>
  \<open>file?.fileKey\<close>: the key of an entry that may itself be \<open>undefined\<close> or \<open>null\<close>.
\<close>

definition opt_fileKey :: "ProviderGetFileDTO option \<Rightarrow> string option" where
  "opt_fileKey file = (case file of None \<Rightarrow> None | Some f \<Rightarrow> fileKey f)"

text \<open>
  The \<open>for\<close> loop of \<open>delete\<close>: each entry is tested and then removed before the next
  one is looked at. A failing \<open>removeObject\<close> is logged as a warning and the loop goes
  on.
\<close>

fun delete_loop ::
  "'s MinioFileProviderService \<Rightarrow> ProviderDeleteFileDTO option list \<Rightarrow> 's world
   \<Rightarrow> unit promise \<times> 's world" where
  "delete_loop svc [] w = (Resolved (), w)"
| "delete_loop svc (file # files) w =
     (if falsy (opt_fileKey file) then
        (Rejected (MedusaError INVALID_DATA ''No file key provided''), w)
      else
        (let fk = str (opt_fileKey file)
         in case invoke (RemoveObject (bucket svc) fk)
                   (removeObject (client svc) (bucket svc) fk) w of
              (Inr _, w1) \<Rightarrow>
                delete_loop svc files
                  (logger Info (''Successfully deleted file '' @ fk @ '' from MinIO bucket ''
                                @ bucket svc) w1)
            | (Inl error, w1) \<Rightarrow>
                delete_loop svc files
                  (logger Warn (''Failed to delete file '' @ fk @ '': '' @ message error) w1)))"

text \<open>The argument of \<open>delete\<close> is one DTO or an array of them.\<close>

datatype delete_input =
    One "ProviderDeleteFileDTO option"
  | Many "ProviderDeleteFileDTO option list"

text \<open>\<open>Array.isArray(fileData) ? fileData : [fileData]\<close>\<close>

definition as_array :: "delete_input \<Rightarrow> ProviderDeleteFileDTO option list" where
  "as_array fileData = (case fileData of Many fs \<Rightarrow> fs | One f \<Rightarrow> [f])"

definition delete ::
  "'s MinioFileProviderService \<Rightarrow> delete_input \<Rightarrow> 's world \<Rightarrow> unit promise \<times> 's world" where
  "delete svc fileData w = (let files = as_array fileData in delete_loop svc files w)"

definition getPresignedDownloadUrl ::
  "'s MinioFileProviderService \<Rightarrow> ProviderGetFileDTO option \<Rightarrow> 's world
   \<Rightarrow> string promise \<times> 's world" where
  "getPresignedDownloadUrl svc fileData w =
     (if falsy (opt_fileKey fileData) then
        (Rejected (MedusaError INVALID_DATA ''No file key provided''), w)
      else
        (let fk = str (opt_fileKey fileData)
         in case invoke (PresignedGetObject (bucket svc) fk (24 * 60 * 60))
                   (presignedGetObject (client svc) (bucket svc) fk (24 * 60 * 60)) w of
              (Inr theUrl, w1) \<Rightarrow>
                (Resolved theUrl, logger Info (''Generated presigned URL for file '' @ fk) w1)
            | (Inl error, w1) \<Rightarrow>
                (Rejected (MedusaError UNEXPECTED_STATE
                             (''Failed to generate presigned URL: '' @ message error)),
                 logger Err (''Failed to generate presigned URL: '' @ message error) w1)))"

definition opt_filename ::
  "'a ProviderGetPresignedUploadUrlDTO_scheme option \<Rightarrow> string option" where
  "opt_filename fileData = (case fileData of None \<Rightarrow> None | Some f \<Rightarrow> filename f)"

definition getPresignedUploadUrl ::
  "'s MinioFileProviderService \<Rightarrow> ProviderGetPresignedUploadUrlDTO option \<Rightarrow> 's world
   \<Rightarrow> ProviderFileResultDTO promise \<times> 's world" where
  "getPresignedUploadUrl svc fileData w =
     (if falsy (opt_filename fileData) then
        (Rejected (MedusaError INVALID_DATA ''No filename provided''), w)
      else
        (let fk = str (opt_filename fileData)
         in case invoke (PresignedPutObject (bucket svc) fk (15 * 60))
                   (presignedPutObject (client svc) (bucket svc) fk (15 * 60)) w of
              (Inr theUrl, w1) \<Rightarrow> (Resolved \<lparr>url = theUrl, key = fk\<rparr>, w1)
            | (Inl error, w1) \<Rightarrow>
                (Rejected (MedusaError UNEXPECTED_STATE
                             (''Failed to generate presigned upload URL: '' @ message error)),
                 logger Err (''Failed to generate presigned upload URL: '' @ message error) w1)))"

text \<open>
  The promise built inside \<open>getAsBuffer\<close>: the \<open>data\<close> listener appends the chunk, the
  \<open>end\<close> listener resolves with the concatenation of the chunks so far, the \<open>error\<close>
  listener rejects. A promise is settled once, so the first \<open>end\<close> or \<open>error\<close> event
  decides and later events change nothing. A stream that emits neither leaves the promise
  unsettled (\<open>None\<close>).
\<close>

fun collect :: "Readable \<Rightarrow> buffer list \<Rightarrow> (js_error + buffer) option" where
  "collect [] chunks = None"
| "collect (Data chunk # evs) chunks = collect evs (chunks @ [chunk])"
| "collect (End # evs) chunks = Some (Inr (Buffer_concat chunks))"
| "collect (StreamError e # evs) chunks = Some (Inl e)"

definition getAsBuffer ::
  "'s MinioFileProviderService \<Rightarrow> ProviderGetFileDTO option \<Rightarrow> 's world
   \<Rightarrow> buffer promise \<times> 's world" where
  "getAsBuffer svc fileData w =
     (if falsy (opt_fileKey fileData) then
        (Rejected (MedusaError INVALID_DATA ''No file key provided''), w)
      else
        (let fk = str (opt_fileKey fileData);
             catch = (\<lambda>error w'.
               (Rejected (MedusaError UNEXPECTED_STATE
                            (''Failed to get buffer: '' @ message error)),
                logger Err (''Failed to get buffer: '' @ message error) w'))
         in case invoke (GetObject (bucket svc) fk) (getObject (client svc) (bucket svc) fk) w of
              (Inl error, w1) \<Rightarrow> catch error w1
            | (Inr stream, w1) \<Rightarrow>
                (case collect stream [] of
                   None \<Rightarrow> (Pending, w1)
                 | Some (Inl error) \<Rightarrow> catch error w1
                 | Some (Inr buf) \<Rightarrow>
                     (Resolved buf, logger Info (''Retrieved buffer for file '' @ fk) w1))))"

definition getDownloadStream ::
  "'s MinioFileProviderService \<Rightarrow> ProviderGetFileDTO option \<Rightarrow> 's world
   \<Rightarrow> Readable promise \<times> 's world" where
  "getDownloadStream svc fileData w =
     (if falsy (opt_fileKey fileData) then
        (Rejected (MedusaError INVALID_DATA ''No file key provided''), w)
      else
        (let fk = str (opt_fileKey fileData)
         in case invoke (GetObject (bucket svc) fk) (getObject (client svc) (bucket svc) fk) w of
              (Inr minioStream, w1) \<Rightarrow>
                (Resolved minioStream,
                 logger Info (''Retrieved download stream for file '' @ fk) w1)
            | (Inl error, w1) \<Rightarrow>
                (Rejected (MedusaError UNEXPECTED_STATE
                             (''Failed to get download stream: '' @ message error)),
                 logger Err (''Failed to get download stream: '' @ message error) w1)))"

text \<open>
  Observers used to state properties of the requests: the ones an operation has added to
  the world, the bucket a request names (the first argument of every client method), and
  whether a request is one of the three bucket-level ones.
\<close>

definition new_calls :: "'s world \<Rightarrow> 's world \<Rightarrow> call list" where
  "new_calls w w' = drop (length (calls w)) (calls w')"

fun call_bucket :: "call \<Rightarrow> string" where
  "call_bucket (BucketExists b) = b"
| "call_bucket (MakeBucket b) = b"
| "call_bucket (SetBucketPolicy b _) = b"
| "call_bucket (PutObject b _ _ _ _) = b"
| "call_bucket (RemoveObject b _) = b"
| "call_bucket (PresignedGetObject b _ _) = b"
| "call_bucket (PresignedPutObject b _ _) = b"
| "call_bucket (GetObject b _) = b"

fun bucket_level :: "call \<Rightarrow> bool" where
  "bucket_level (BucketExists _) = True"
| "bucket_level (MakeBucket _) = True"
| "bucket_level (SetBucketPolicy _ _) = True"
| "bucket_level _ = False"

section \<open>The featured products of the storefront (featured-products/index.tsx)\<close>

text \<open>
  A collection and a region as far as the component reads them. The products of a
  collection are of any type; only their number is logged.
\<close>

datatype 'p StoreCollection =
  StoreCollection (col_id: string) (col_title: string) (col_products: "'p list option")

datatype StoreRegion = StoreRegion (region_id: string)

text \<open>
  \<open>listCollections\<close> and \<open>getRegion\<close> belong to the data layer of the storefront and
  are parameters here: the value each call yields, or the error it throws.
  \<open>listCollections\<close> yields the \<open>collections\<close> field of its response, which may be
  absent; \<open>getRegion\<close> yields a region or none.
\<close>

record 'p data_layer =
  listCollections :: "(string \<times> string) list \<Rightarrow> js_error + 'p StoreCollection list option"
  getRegion :: "string \<Rightarrow> js_error + StoreRegion option"

text \<open>The elements the component renders.\<close>

datatype 'p element =
    ProductRail "'p StoreCollection" StoreRegion
  | Li string "'p element"
  | Ul string "'p element list"

datatype console_arg = CStr string | CNum nat

definition digit :: "nat \<Rightarrow> char" where
  "digit n = char_of (48 + n)"

function decimal :: "nat \<Rightarrow> string" where
  "decimal n = (if n < 10 then [digit n] else decimal (n div 10) @ [digit (n mod 10)])"
  by pat_completeness auto
termination
  by (relation "measure (\<lambda>n. n)") auto

declare decimal.simps [simp del]

definition length_or_0 :: "'a list option \<Rightarrow> nat" where
  "length_or_0 xs = (case xs of None \<Rightarrow> 0 | Some l \<Rightarrow> length l)"

definition FeaturedProducts ::
  "'p data_layer \<Rightarrow> string \<Rightarrow> console_arg list list
   \<Rightarrow> 'p element option promise \<times> console_arg list list" where
  "FeaturedProducts dl countryCode out =
     (case listCollections dl [(''limit'', ''3''), (''fields'', ''*products'')] of
        Inl error \<Rightarrow> (Rejected (Raw error), out)
      | Inr collections \<Rightarrow>
          (case getRegion dl countryCode of
             Inl error \<Rightarrow> (Rejected (Raw error), out)
           | Inr region \<Rightarrow>
               (let out1 = out @ [[CStr ''[FeaturedProducts] Collections count:'',
                                   CNum (length_or_0 collections)]];
                    out2 = out1 @ [[CStr ''[FeaturedProducts] Region:'',
                                    CStr (case region of
                                            None \<Rightarrow> ''none''
                                          | Some r \<Rightarrow> if region_id r = [] then ''none''
                                                      else region_id r)]];
                    out3 = out2 @
                      (case collections of
                         None \<Rightarrow> []
                       | Some cs \<Rightarrow>
                           map (\<lambda>(i, col).
                                  [CStr (''[FeaturedProducts] Collection '' @ decimal i @ '': ''
                                         @ col_title col @ '', products: ''
                                         @ decimal (length_or_0 (col_products col)))])
                               (enumerate 0 cs))
                in case collections of
                     None \<Rightarrow> (Resolved None, out3)
                   | Some cs \<Rightarrow>
                       (case region of
                          None \<Rightarrow> (Resolved None, out3)
                        | Some r \<Rightarrow>
                            (Resolved (Some (Ul ''flex flex-col gap-x-6 bg-neutral-100''
                               (map (\<lambda>collection.
                                       Li (col_id collection) (ProductRail collection r)) cs))),
                             out3)))))"

section \<open>Test doubles\<close>

text \<open>
  A small in-memory object store, used to run the service on concrete inputs. Objects
  are kept under their bucket and key; the bucket is reported missing; \<open>getObject\<close>
  streams an object one byte per chunk.
\<close>

type_synonym mem_store = "((string \<times> string) \<times> buffer) list"

definition expiry_suffix :: "nat \<Rightarrow> string" where
  "expiry_suffix n =
     (if n = 86400 then ''?expires=24h'' else if n = 900 then ''?expires=15m''
      else ''?expires=other'')"

definition mem_Client :: "mem_store Client" where
  "mem_Client =
     \<lparr>bucketExists = (\<lambda>b s. (Inr False, s)),
      makeBucket = (\<lambda>b s. (Inr (), s)),
      setBucketPolicy = (\<lambda>b p s. (Inr (), s)),
      putObject = (\<lambda>b k buf n meta s. (Inr (), ((b, k), buf) # s)),
      removeObject = (\<lambda>b k s.
         case map_of s (b, k) of
           None \<Rightarrow> (Inl (Error ''NoSuchKey''), s)
         | Some _ \<Rightarrow> (Inr (), filter (\<lambda>e. fst e \<noteq> (b, k)) s)),
      presignedGetObject = (\<lambda>b k n s.
         (Inr (''https://minio.test/'' @ b @ ''/'' @ k @ expiry_suffix n), s)),
      presignedPutObject = (\<lambda>b k n s.
         (Inr (''https://minio.test/'' @ b @ ''/'' @ k @ expiry_suffix n), s)),
      getObject = (\<lambda>b k s.
         case map_of s (b, k) of
           None \<Rightarrow> (Inl (Error ''NoSuchKey''), s)
         | Some buf \<Rightarrow> (Inr (map (\<lambda>x. Data [x]) buf @ [End]), s))\<rparr>"

text \<open>A client that cannot reach its server: every request throws.\<close>

definition down_Client :: "mem_store Client" where
  "down_Client =
     \<lparr>bucketExists = (\<lambda>b s. (Inl (Error ''connect ECONNREFUSED''), s)),
      makeBucket = (\<lambda>b s. (Inl (Error ''connect ECONNREFUSED''), s)),
      setBucketPolicy = (\<lambda>b p s. (Inl (Error ''connect ECONNREFUSED''), s)),
      putObject = (\<lambda>b k buf n meta s. (Inl (Error ''connect ECONNREFUSED''), s)),
      removeObject = (\<lambda>b k s. (Inl (Error ''connect ECONNREFUSED''), s)),
      presignedGetObject = (\<lambda>b k n s. (Inl (Error ''connect ECONNREFUSED''), s)),
      presignedPutObject = (\<lambda>b k n s. (Inl (Error ''connect ECONNREFUSED''), s)),
      getObject = (\<lambda>b k s. (Inl (Error ''connect ECONNREFUSED''), s))\<rparr>"

text \<open>A client whose object streams break after the first chunk.\<close>

definition flaky_Client :: "mem_store Client" where
  "flaky_Client =
     mem_Client\<lparr>getObject := (\<lambda>b k s. (Inr [Data [1, 2], StreamError (Error ''aborted'')], s))\<rparr>"

definition test_env :: "mem_store env" where
  "test_env =
     \<lparr>new_URL = (\<lambda>u. if u = ''https://minio.test:9000''
                      then Inr (URL ''https:'' ''minio.test'' ''9000'' ''minio.test:9000'')
                      else Inl (Error ''Invalid URL'')),
      parseInt = (\<lambda>t. if t = ''9000'' then Num 9000 else NaN),
      Number_toString = (\<lambda>n. if n = Num 9000 then ''9000'' else ''NaN''),
      new_Client = (\<lambda>opts. Inr mem_Client),
      JSON_stringify = (\<lambda>j. ''{}''),
      path_parse = (\<lambda>f. if f = ''photo.png''
                         then \<lparr>root = [], dir = [], base = ''photo.png'', ext = ''.png'',
                               name = ''photo''\<rparr>
                         else \<lparr>root = [], dir = [], base = f, ext = [], name = f\<rparr>),
      ulid = (\<lambda>s. (''01ARZ3NDEKTSV4RRFFQ69G5FAV'', s))\<rparr>"

definition test_options :: MinioFileProviderOptions where
  "test_options =
     \<lparr>endPoint = ''minio.test:9000'', accessKey = ''ak'', secretKey = ''sk'',
      cfg_bucket = None, cfg_publicEndpoint = None\<rparr>"

definition test_service :: "mem_store Client \<Rightarrow> mem_store MinioFileProviderService" where
  "test_service c =
     \<lparr>config0 = test_options, client = c, bucket = ''medusa-media'',
      publicEndpoint = ''https://minio.test:9000''\<rparr>"

definition empty_world :: "mem_store world" where
  "empty_world = \<lparr>store = [], calls = [], logs = []\<rparr>"

definition stocked_world :: "mem_store world" where
  "stocked_world = \<lparr>store = [((''medusa-media'', ''a''), [1, 2, 3])], calls = [], logs = []\<rparr>"

text \<open>
  A second store that keeps the buckets with their policies and serves no objects, and a
  renderer that stands in for \<open>JSON.stringify\<close> (no quotes, no escapes).
\<close>

type_synonym bucket_store = "(string \<times> string) list"

definition bucket_Client :: "bucket_store Client" where
  "bucket_Client =
     \<lparr>bucketExists = (\<lambda>b s. (Inr (map_of s b \<noteq> None), s)),
      makeBucket = (\<lambda>b s. (Inr (), (b, []) # s)),
      setBucketPolicy = (\<lambda>b p s.
         case map_of s b of
           None \<Rightarrow> (Inl (Error ''NoSuchBucket''), s)
         | Some _ \<Rightarrow> (Inr (), map (\<lambda>e. if fst e = b then (b, p) else e) s)),
      putObject = (\<lambda>b k buf n meta s. (Inl (Error ''NotImplemented''), s)),
      removeObject = (\<lambda>b k s. (Inl (Error ''NotImplemented''), s)),
      presignedGetObject = (\<lambda>b k n s. (Inl (Error ''NotImplemented''), s)),
      presignedPutObject = (\<lambda>b k n s. (Inl (Error ''NotImplemented''), s)),
      getObject = (\<lambda>b k s. (Inl (Error ''NotImplemented''), s))\<rparr>"

fun join :: "string \<Rightarrow> string list \<Rightarrow> string" where
  "join sep [] = []"
| "join sep [x] = x"
| "join sep (x # y # ys) = x @ sep @ join sep (y # ys)"

fun render :: "json \<Rightarrow> string" where
  "render (JString t) = t"
| "render (JArray xs) = ''['' @ join '','' (map render xs) @ '']''"
| "render (JObject kvs) =
     ''{'' @ join '','' (map (\<lambda>kv. fst kv @ '':'' @ render (snd kv)) kvs) @ ''}''"

definition bucket_env :: "bucket_store env" where
  "bucket_env =
     \<lparr>new_URL = (\<lambda>u. if u = ''https://minio.test:9000''
                      then Inr (URL ''https:'' ''minio.test'' ''9000'' ''minio.test:9000'')
                      else Inl (Error ''Invalid URL'')),
      parseInt = (\<lambda>t. if t = ''9000'' then Num 9000 else NaN),
      Number_toString = (\<lambda>n. if n = Num 9000 then ''9000'' else ''NaN''),
      new_Client = (\<lambda>opts. Inr bucket_Client),
      JSON_stringify = render,
      path_parse = (\<lambda>f. \<lparr>root = [], dir = [], base = f, ext = [], name = f\<rparr>),
      ulid = (\<lambda>s. (''01ARZ3NDEKTSV4RRFFQ69G5FAV'', s))\<rparr>"

definition bucket_service :: "bucket_store MinioFileProviderService" where
  "bucket_service =
     \<lparr>config0 = test_options, client = bucket_Client, bucket = ''medusa-media'',
      publicEndpoint = ''https://minio.test:9000''\<rparr>"

definition no_buckets :: "bucket_store world" where
  "no_buckets = \<lparr>store = [], calls = [], logs = []\<rparr>"

definition one_bucket :: "bucket_store world" where
  "one_bucket = \<lparr>store = [(''medusa-media'', [])], calls = [], logs = []\<rparr>"

definition test_data_layer :: "nat data_layer" where
  "test_data_layer =
     \<lparr>listCollections = (\<lambda>q. Inr (Some [StoreCollection ''c1'' ''Sale'' (Some [1, 2]),
                                          StoreCollection ''c2'' ''New'' None])),
      getRegion = (\<lambda>cc. if cc = ''gb'' then Inr (Some (StoreRegion ''reg_gb''))
                         else Inr None)\<rparr>"

section \<open>Properties of the file provider\<close>

subsection \<open>Requests sent by each operation\<close>

lemma calls_logger [simp]: "calls (logger l m w) = calls w"
  by (simp add: logger_def)

lemma store_logger [simp]: "store (logger l m w) = store w"
  by (simp add: logger_def)

lemma invoke_eq:
  "m (store w) = (r, s') \<Longrightarrow> invoke c m w = (r, w\<lparr>store := s', calls := calls w @ [c]\<rparr>)"
  by (simp add: invoke_def)

lemma calls_invoke [simp]: "calls (snd (invoke c m w)) = calls w @ [c]"
  by (simp add: invoke_def split: prod.splits)

lemma new_calls_append [simp]: "calls w' = calls w @ cs \<Longrightarrow> new_calls w w' = cs"
  by (simp add: new_calls_def)

lemma delete_loop_calls:
  "calls (snd (delete_loop svc files w)) =
     calls w @ map (\<lambda>f. RemoveObject (bucket svc) (str (opt_fileKey f)))
                   (takeWhile (\<lambda>f. \<not> falsy (opt_fileKey f)) files)"
proof (induction files arbitrary: w)
  case Nil
  show ?case by simp
next
  case (Cons d ds)
  show ?case
  proof (cases "falsy (opt_fileKey d)")
    case True
    then show ?thesis by simp
  next
    case False
    obtain r w1 where inv: "invoke (RemoveObject (bucket svc) (str (opt_fileKey d)))
        (removeObject (client svc) (bucket svc) (str (opt_fileKey d))) w = (r, w1)"
      by (cases "invoke (RemoveObject (bucket svc) (str (opt_fileKey d)))
        (removeObject (client svc) (bucket svc) (str (opt_fileKey d))) w")
    have c1: "calls w1 = calls w @ [RemoveObject (bucket svc) (str (opt_fileKey d))]"
      using calls_invoke [of "RemoveObject (bucket svc) (str (opt_fileKey d))"
          "removeObject (client svc) (bucket svc) (str (opt_fileKey d))" w] inv by simp
    show ?thesis
      using False inv c1 by (cases r) (simp_all add: Cons.IH)
  qed
qed

lemma delete_loop_all_present:
  "\<forall>f\<in>set files. \<not> falsy (opt_fileKey f) \<Longrightarrow> fst (delete_loop svc files w) = Resolved ()"
proof (induction files arbitrary: w)
  case Nil
  show ?case by simp
next
  case (Cons d ds)
  then show ?case
    by (simp add: Let_def split: prod.splits sum.splits)
qed

lemma delete_loop_rejected:
  "delete_loop svc files w = (Rejected t, w') \<Longrightarrow>
     t = MedusaError INVALID_DATA ''No file key provided'' \<and>
     (\<exists>pre d rest. files = pre @ d # rest \<and> (\<forall>f\<in>set pre. \<not> falsy (opt_fileKey f)) \<and>
        falsy (opt_fileKey d) \<and> delete_loop svc pre w = (Resolved (), w'))"
proof (induction files arbitrary: w)
  case Nil
  then show ?case by simp
next
  case (Cons d ds)
  show ?case
  proof (cases "falsy (opt_fileKey d)")
    case True
    with Cons.prems have "t = MedusaError INVALID_DATA ''No file key provided''" "w' = w"
      by simp_all
    moreover have "d # ds = [] @ d # ds" by simp
    ultimately show ?thesis using True by fastforce
  next
    case False
    let ?k = "str (opt_fileKey d)"
    obtain r w1 where inv: "invoke (RemoveObject (bucket svc) ?k)
        (removeObject (client svc) (bucket svc) ?k) w = (r, w1)"
      by (cases "invoke (RemoveObject (bucket svc) ?k)
        (removeObject (client svc) (bucket svc) ?k) w")
    define w2 where "w2 = (case r of
        Inr _ \<Rightarrow> logger Info (''Successfully deleted file '' @ ?k @ '' from MinIO bucket '' @ bucket svc) w1
      | Inl error \<Rightarrow> logger Warn (''Failed to delete file '' @ ?k @ '': '' @ message error) w1)"
    have step: "\<And>fs. delete_loop svc (d # fs) w = delete_loop svc fs w2"
      using False inv by (simp add: w2_def split: sum.splits)
    from Cons.prems step have "delete_loop svc ds w2 = (Rejected t, w')" by simp
    from Cons.IH [OF this] obtain pre f rest where
      t: "t = MedusaError INVALID_DATA ''No file key provided''" and
      fs: "ds = pre @ f # rest" and
      pre: "\<forall>f\<in>set pre. \<not> falsy (opt_fileKey f)" and
      f: "falsy (opt_fileKey f)" and
      run: "delete_loop svc pre w2 = (Resolved (), w')"
      by blast
    have "d # ds = (d # pre) @ f # rest" using fs by simp
    moreover have "\<forall>g\<in>set (d # pre). \<not> falsy (opt_fileKey g)" using pre False by simp
    moreover have "delete_loop svc (d # pre) w = (Resolved (), w')" using step run by simp
    ultimately show ?thesis using t f by blast
  qed
qed


lemma delete_loop_absent:
  "\<exists>f\<in>set files. falsy (opt_fileKey f) \<Longrightarrow>
     fst (delete_loop svc files w) = Rejected (MedusaError INVALID_DATA ''No file key provided'')"
proof (induction files arbitrary: w)
  case Nil
  then show ?case by simp
next
  case (Cons d ds)
  show ?case
  proof (cases "falsy (opt_fileKey d)")
    case True
    then show ?thesis by simp
  next
    case False
    with Cons.prems have "\<exists>f\<in>set ds. falsy (opt_fileKey f)" by auto
    with Cons.IH False show ?thesis
      by (simp add: Let_def split: prod.splits sum.splits)
  qed
qed

lemma upload_calls:
  "calls (snd (upload env svc dto w)) = calls w \<or>
   (\<exists>k buf n meta. calls (snd (upload env svc dto w)) = calls w @ [PutObject (bucket svc) k buf n meta])"
  by (simp add: upload_def Let_def invoke_def split: option.splits prod.splits sum.splits)

lemma getPresignedDownloadUrl_calls:
  "calls (snd (getPresignedDownloadUrl svc fd w)) =
     calls w @ (if falsy (opt_fileKey fd) then []
                else [PresignedGetObject (bucket svc) (str (opt_fileKey fd)) 86400])"
  by (simp add: getPresignedDownloadUrl_def Let_def invoke_def split: prod.splits sum.splits)

lemma getPresignedUploadUrl_calls:
  "calls (snd (getPresignedUploadUrl svc pu w)) =
     calls w @ (if falsy (opt_filename pu) then []
                else [PresignedPutObject (bucket svc) (str (opt_filename pu)) 900])"
  by (simp add: getPresignedUploadUrl_def Let_def invoke_def split: prod.splits sum.splits)

lemma getAsBuffer_calls:
  "calls (snd (getAsBuffer svc fd w)) =
     calls w @ (if falsy (opt_fileKey fd) then []
                else [GetObject (bucket svc) (str (opt_fileKey fd))])"
  by (simp add: getAsBuffer_def Let_def invoke_def split: prod.splits sum.splits option.splits)

lemma getDownloadStream_calls:
  "calls (snd (getDownloadStream svc fd w)) =
     calls w @ (if falsy (opt_fileKey fd) then []
                else [GetObject (bucket svc) (str (opt_fileKey fd))])"
  by (simp add: getDownloadStream_def Let_def invoke_def split: prod.splits sum.splits)

lemma delete_calls:
  "calls (snd (delete svc fileData w)) =
     calls w @ map (\<lambda>f. RemoveObject (bucket svc) (str (opt_fileKey f)))
                   (takeWhile (\<lambda>f. \<not> falsy (opt_fileKey f)) (as_array fileData))"
  by (simp add: delete_def delete_loop_calls)

lemma collect_ended:
  "collect (map Data cs @ End # rest) acc = Some (Inr (Buffer_concat (acc @ cs)))"
  by (induction cs arbitrary: acc) simp_all

lemma collect_failed:
  "collect (map Data cs @ StreamError e # rest) acc = Some (Inl e)"
  by (induction cs arbitrary: acc) simp_all

lemma new_calls_same [simp]: "calls w' = calls w \<Longrightarrow> new_calls w w' = []"
  by (simp add: new_calls_def)

lemma calls_parseEndpoint [simp]: "calls (snd (parseEndpoint env endpoint w)) = calls w"
  by (simp add: parseEndpoint_def Let_def split: sum.splits)

lemma store_parseEndpoint [simp]: "store (snd (parseEndpoint env endpoint w)) = store w"
  by (simp add: parseEndpoint_def Let_def split: sum.splits)

subsection \<open>Outcome of each operation from the client's answer\<close>

lemma upload_outcome:
  assumes "dto = Some f" and "\<not> falsy (filename f)"
    and "ulid env (store w) = (u, sa)"
    and "putObject (client svc) (bucket svc)
           (name (path_parse env (str (filename f))) @ ''-'' @ u
            @ ext (path_parse env (str (filename f))))
           (Buffer_from_binary (content f)) (length (Buffer_from_binary (content f)))
           [(''Content-Type'', mimeType f),
            (''x-amz-meta-original-filename'', str (filename f)),
            (''x-amz-acl'', ''public-read'')] sa = (r, sb)"
  shows "store (snd (upload env svc dto w)) = sb"
    and "fst (upload env svc dto w) =
      (case r of
         Inr _ \<Rightarrow>
           Resolved \<lparr>url = publicEndpoint svc @ ''/'' @ bucket svc @ ''/''
                           @ name (path_parse env (str (filename f))) @ ''-'' @ u
                           @ ext (path_parse env (str (filename f))),
                     key = name (path_parse env (str (filename f))) @ ''-'' @ u
                           @ ext (path_parse env (str (filename f)))\<rparr>
       | Inl e \<Rightarrow> Rejected (MedusaError UNEXPECTED_STATE (''Failed to upload file: '' @ message e)))"
    and "new_calls w (snd (upload env svc dto w)) =
      [PutObject (bucket svc)
         (name (path_parse env (str (filename f))) @ ''-'' @ u
          @ ext (path_parse env (str (filename f))))
         (Buffer_from_binary (content f)) (length (Buffer_from_binary (content f)))
         [(''Content-Type'', mimeType f),
          (''x-amz-meta-original-filename'', str (filename f)),
          (''x-amz-acl'', ''public-read'')]]"
  using assms
  by (simp_all add: upload_def invoke_def Let_def new_calls_def split: sum.splits)

lemma delete_step:
  assumes "\<not> falsy (opt_fileKey d)"
    and "removeObject (client svc) (bucket svc) (str (opt_fileKey d)) (store w) = (r, s')"
  shows "delete svc (Many (d # fs)) w =
      delete svc (Many fs)
        (w\<lparr>store := s',
           calls := calls w @ [RemoveObject (bucket svc) (str (opt_fileKey d))],
           logs := logs w @
             [case r of
                Inr _ \<Rightarrow> (Info, ''Successfully deleted file '' @ str (opt_fileKey d)
                                 @ '' from MinIO bucket '' @ bucket svc)
              | Inl e \<Rightarrow> (Warn, ''Failed to delete file '' @ str (opt_fileKey d) @ '': ''
                                 @ message e)]\<rparr>)"
  using assms
  by (simp add: delete_def as_array_def invoke_def logger_def Let_def split: sum.splits)

lemma getPresignedDownloadUrl_outcome:
  assumes "\<not> falsy (opt_fileKey fd)"
    and "presignedGetObject (client svc) (bucket svc) (str (opt_fileKey fd)) 86400 (store w)
           = (r, s')"
  shows "getPresignedDownloadUrl svc fd w =
      (case r of
         Inr u \<Rightarrow>
           (Resolved u,
            w\<lparr>store := s',
              calls := calls w @ [PresignedGetObject (bucket svc) (str (opt_fileKey fd)) 86400],
              logs := logs w @ [(Info, ''Generated presigned URL for file ''
                                       @ str (opt_fileKey fd))]\<rparr>)
       | Inl e \<Rightarrow>
           (Rejected (MedusaError UNEXPECTED_STATE
                        (''Failed to generate presigned URL: '' @ message e)),
            w\<lparr>store := s',
              calls := calls w @ [PresignedGetObject (bucket svc) (str (opt_fileKey fd)) 86400],
              logs := logs w @ [(Err, ''Failed to generate presigned URL: '' @ message e)]\<rparr>))"
  using assms
  by (simp add: getPresignedDownloadUrl_def invoke_def logger_def Let_def split: sum.splits)

lemma getPresignedUploadUrl_outcome:
  assumes "\<not> falsy (opt_filename pu)"
    and "presignedPutObject (client svc) (bucket svc) (str (opt_filename pu)) 900 (store w)
           = (r, s')"
  shows "getPresignedUploadUrl svc pu w =
      (case r of
         Inr u \<Rightarrow>
           (Resolved \<lparr>url = u, key = str (opt_filename pu)\<rparr>,
            w\<lparr>store := s',
              calls := calls w @ [PresignedPutObject (bucket svc) (str (opt_filename pu)) 900]\<rparr>)
       | Inl e \<Rightarrow>
           (Rejected (MedusaError UNEXPECTED_STATE
                        (''Failed to generate presigned upload URL: '' @ message e)),
            w\<lparr>store := s',
              calls := calls w @ [PresignedPutObject (bucket svc) (str (opt_filename pu)) 900],
              logs := logs w @ [(Err, ''Failed to generate presigned upload URL: ''
                                      @ message e)]\<rparr>))"
  using assms
  by (simp add: getPresignedUploadUrl_def invoke_def logger_def Let_def split: sum.splits)

lemma getAsBuffer_outcome:
  assumes "\<not> falsy (opt_fileKey fd)"
    and "getObject (client svc) (bucket svc) (str (opt_fileKey fd)) (store w) = (r, s')"
  shows "store (snd (getAsBuffer svc fd w)) = s'"
    and "fst (getAsBuffer svc fd w) =
      (case r of
         Inl e \<Rightarrow> Rejected (MedusaError UNEXPECTED_STATE (''Failed to get buffer: '' @ message e))
       | Inr stream \<Rightarrow>
           (case collect stream [] of
              None \<Rightarrow> Pending
            | Some (Inl e) \<Rightarrow>
                Rejected (MedusaError UNEXPECTED_STATE (''Failed to get buffer: '' @ message e))
            | Some (Inr buf) \<Rightarrow> Resolved buf))"
  using assms
  by (simp_all add: getAsBuffer_def invoke_def Let_def split: sum.splits option.splits)

lemma getDownloadStream_outcome:
  assumes "\<not> falsy (opt_fileKey fd)"
    and "getObject (client svc) (bucket svc) (str (opt_fileKey fd)) (store w) = (r, s')"
  shows "getDownloadStream svc fd w =
      (case r of
         Inr minioStream \<Rightarrow>
           (Resolved minioStream,
            w\<lparr>store := s',
              calls := calls w @ [GetObject (bucket svc) (str (opt_fileKey fd))],
              logs := logs w @ [(Info, ''Retrieved download stream for file ''
                                       @ str (opt_fileKey fd))]\<rparr>)
       | Inl e \<Rightarrow>
           (Rejected (MedusaError UNEXPECTED_STATE
                        (''Failed to get download stream: '' @ message e)),
            w\<lparr>store := s',
              calls := calls w @ [GetObject (bucket svc) (str (opt_fileKey fd))],
              logs := logs w @ [(Err, ''Failed to get download stream: '' @ message e)]\<rparr>))"
  using assms
  by (simp add: getDownloadStream_def invoke_def logger_def Let_def split: sum.splits)

lemma initializeBucket_missing:
  assumes "bucketExists (client svc) (bucket svc) (store w) = (Inr False, sa)"
    and "makeBucket (client svc) (bucket svc) sa = (Inr (), sb)"
    and "setBucketPolicy (client svc) (bucket svc)
           (JSON_stringify env (public_read_policy (bucket svc))) sb = (r, sc)"
  shows "initializeBucket env svc w =
      (case r of Inr _ \<Rightarrow> Resolved () | Inl e \<Rightarrow> Rejected (Raw e),
       w\<lparr>store := sc,
         calls := calls w @
           [BucketExists (bucket svc), MakeBucket (bucket svc),
            SetBucketPolicy (bucket svc) (JSON_stringify env (public_read_policy (bucket svc)))],
         logs := logs w @
           [(Info, ''Created bucket: '' @ bucket svc),
            case r of
              Inr _ \<Rightarrow> (Info, ''Set public read policy for bucket: '' @ bucket svc)
            | Inl e \<Rightarrow> (Err, ''Error initializing bucket: '' @ message e)]\<rparr>)"
  using assms
  by (simp add: initializeBucket_def invoke_def logger_def Let_def split: sum.splits)

lemma initializeBucket_existing:
  assumes "bucketExists (client svc) (bucket svc) (store w) = (Inr True, sa)"
    and "setBucketPolicy (client svc) (bucket svc)
           (JSON_stringify env (public_read_policy (bucket svc))) sa = (r, sc)"
  shows "initializeBucket env svc w =
      (Resolved (),
       w\<lparr>store := sc,
         calls := calls w @
           [BucketExists (bucket svc),
            SetBucketPolicy (bucket svc) (JSON_stringify env (public_read_policy (bucket svc)))],
         logs := logs w @
           [(Info, ''Using existing bucket: '' @ bucket svc),
            case r of
              Inr _ \<Rightarrow> (Info, ''Updated public read policy for existing bucket: ''
                               @ bucket svc)
            | Inl e \<Rightarrow> (Warn, ''Failed to update policy for existing bucket: ''
                               @ message e)]\<rparr>)"
  using assms
  by (simp add: initializeBucket_def invoke_def logger_def Let_def split: sum.splits)

lemma initializeBucket_in_pieces:
  "initializeBucket env svc w =
     (case initializeBucket_start svc w of (ta, wa) \<Rightarrow>
      case initializeBucket_resume env svc ta wa of (tb, wb) \<Rightarrow>
      case initializeBucket_resume env svc tb wb of (tc, wc) \<Rightarrow>
      case initializeBucket_resume env svc tc wc of (td, wd) \<Rightarrow>
        (case td of Settled p \<Rightarrow> p | _ \<Rightarrow> Pending, wd))"
proof -
  note defs = initializeBucket_def initializeBucket_start_def initializeBucket_resume_def
    invoke_def logger_def Let_def
  obtain r sa where be: "bucketExists (client svc) (bucket svc) (store w) = (r, sa)"
    by (cases "bucketExists (client svc) (bucket svc) (store w)")
  show ?thesis
  proof (cases r)
    case (Inl e)
    with be show ?thesis by (simp add: defs)
  next
    case (Inr exists)
    show ?thesis
    proof (cases exists)
      case True
      obtain rp sc where sp: "setBucketPolicy (client svc) (bucket svc)
          (JSON_stringify env (public_read_policy (bucket svc))) sa = (rp, sc)"
        by (cases "setBucketPolicy (client svc) (bucket svc)
          (JSON_stringify env (public_read_policy (bucket svc))) sa")
      from be Inr True sp show ?thesis by (cases rp) (simp_all add: defs)
    next
      case False
      obtain rm sb where mb: "makeBucket (client svc) (bucket svc) sa = (rm, sb)"
        by (cases "makeBucket (client svc) (bucket svc) sa")
      show ?thesis
      proof (cases rm)
        case (Inl e)
        with be \<open>r = Inr exists\<close> False mb show ?thesis by (simp add: defs)
      next
        case (Inr x)
        obtain rp sc where sp: "setBucketPolicy (client svc) (bucket svc)
            (JSON_stringify env (public_read_policy (bucket svc))) sb = (rp, sc)"
          by (cases "setBucketPolicy (client svc) (bucket svc)
            (JSON_stringify env (public_read_policy (bucket svc))) sb")
        from be \<open>r = Inr exists\<close> False mb Inr sp show ?thesis
          by (cases rp) (simp_all add: defs)
      qed
    qed
  qed
qed

lemma constructor_starts:
  assumes "fst (constructor env options w) = Inr (svc, task)"
  shows "bucket svc = or_default (cfg_bucket options) DEFAULT_BUCKET"
    and "task = AwaitBucketExists (fst (bucketExists (client svc) (bucket svc) (store w)))"
    and "store (snd (constructor env options w)) =
           snd (bucketExists (client svc) (bucket svc) (store w))"
    and "calls (snd (constructor env options w)) = calls w @ [BucketExists (bucket svc)]"
proof -
  obtain ep wa where pe: "parseEndpoint env (endPoint options) w = (ep, wa)"
    by (cases "parseEndpoint env (endPoint options) w")
  have wa: "calls wa = calls w" "store wa = store w"
    using calls_parseEndpoint [of env "endPoint options" w]
      store_parseEndpoint [of env "endPoint options" w] pe by simp_all
  from assms pe wa
  show "bucket svc = or_default (cfg_bucket options) DEFAULT_BUCKET"
    and "task = AwaitBucketExists (fst (bucketExists (client svc) (bucket svc) (store w)))"
    and "store (snd (constructor env options w)) =
           snd (bucketExists (client svc) (bucket svc) (store w))"
    and "calls (snd (constructor env options w)) = calls w @ [BucketExists (bucket svc)]"
    by (auto simp: constructor_def initializeBucket_start_def invoke_def Let_def
        split: prod.splits sum.splits)
qed

lemma delete_loop_ignores_bucket_methods:
  "delete_loop
     (svc\<lparr>client := (client svc)\<lparr>bucketExists := be, makeBucket := mb,
                                    setBucketPolicy := sp\<rparr>\<rparr>) files w =
   delete_loop svc files w"
proof (induction files arbitrary: w)
  case Nil
  show ?case by simp
next
  case (Cons d ds)
  show ?case
    by (simp add: Cons.IH invoke_def Let_def split: prod.splits sum.splits)
qed

subsection \<open>Validation of the required field\<close>

text \<open>
  Claim C1, as stated, fails for \<open>delete\<close> on an array: the loop tests each entry only
  when it reaches it, so an entry with a key is removed before a later entry without one
  is rejected. Here the second entry has an empty \<open>fileKey\<close>, the call rejects with
  \<open>INVALID_DATA\<close>, and a \<open>removeObject\<close> for the first entry has been sent.
\<close>

theorem delete_array_removes_before_rejecting:
  "falsy (opt_fileKey (Some \<lparr>fileKey = Some ''''\<rparr>)) \<and>
   fst (delete (test_service mem_Client)
          (Many [Some \<lparr>fileKey = Some ''b''\<rparr>, Some \<lparr>fileKey = Some ''''\<rparr>]) empty_world)
     = Rejected (MedusaError INVALID_DATA ''No file key provided'') \<and>
   calls (snd (delete (test_service mem_Client)
          (Many [Some \<lparr>fileKey = Some ''b''\<rparr>, Some \<lparr>fileKey = Some ''''\<rparr>]) empty_world))
     = [RemoveObject ''medusa-media'' ''b'']"
  by (simp add: delete_def as_array_def falsy_def opt_fileKey_def str_def test_service_def
      mem_Client_def empty_world_def invoke_def logger_def Let_def)

text \<open>
  Claim C1, amended. When the required field is missing or empty, \<open>upload\<close>,
  \<open>getPresignedUploadUrl\<close>, \<open>getPresignedDownloadUrl\<close>, \<open>getAsBuffer\<close>,
  \<open>getDownloadStream\<close>, and \<open>delete\<close> of a single DTO or of an array whose first entry
  lacks the key, reject with a \<open>MedusaError\<close> of type \<open>INVALID_DATA\<close> and leave the
  world as it was: no request is sent and nothing is logged. \<open>delete\<close> of an array with
  an entry that lacks its \<open>fileKey\<close> rejects with \<open>INVALID_DATA\<close> too, and the requests
  it has sent are the \<open>removeObject\<close> for each entry before the first such entry, in
  order, and nothing else.
\<close>

theorem required_field_checked_first:
  "(falsy (opt_filename dto) \<longrightarrow>
      upload env svc dto w =
        (Rejected (MedusaError INVALID_DATA
           (if dto = None then ''No file provided'' else ''No filename provided'')), w))
   \<and> (falsy (opt_filename pu) \<longrightarrow>
      getPresignedUploadUrl svc pu w =
        (Rejected (MedusaError INVALID_DATA ''No filename provided''), w))
   \<and> (falsy (opt_fileKey fd) \<longrightarrow>
      getPresignedDownloadUrl svc fd w =
        (Rejected (MedusaError INVALID_DATA ''No file key provided''), w)
      \<and> getAsBuffer svc fd w =
        (Rejected (MedusaError INVALID_DATA ''No file key provided''), w)
      \<and> getDownloadStream svc fd w =
        (Rejected (MedusaError INVALID_DATA ''No file key provided''), w)
      \<and> delete svc (One fd) w =
        (Rejected (MedusaError INVALID_DATA ''No file key provided''), w)
      \<and> delete svc (Many (fd # fs)) w =
        (Rejected (MedusaError INVALID_DATA ''No file key provided''), w))
   \<and> ((\<exists>f\<in>set fs. falsy (opt_fileKey f)) \<longrightarrow>
      fst (delete svc (Many fs) w) = Rejected (MedusaError INVALID_DATA ''No file key provided'')
      \<and> new_calls w (snd (delete svc (Many fs) w)) =
          map (\<lambda>f. RemoveObject (bucket svc) (str (opt_fileKey f)))
              (takeWhile (\<lambda>f. \<not> falsy (opt_fileKey f)) fs))"
proof -
  have up: "falsy (opt_filename dto) \<longrightarrow>
      upload env svc dto w =
        (Rejected (MedusaError INVALID_DATA
           (if dto = None then ''No file provided'' else ''No filename provided'')), w)"
    by (simp add: upload_def opt_filename_def split: option.splits)
  have pu: "falsy (opt_filename pu) \<longrightarrow>
      getPresignedUploadUrl svc pu w =
        (Rejected (MedusaError INVALID_DATA ''No filename provided''), w)"
    by (simp add: getPresignedUploadUrl_def)
  have single: "falsy (opt_fileKey fd) \<longrightarrow>
      getPresignedDownloadUrl svc fd w =
        (Rejected (MedusaError INVALID_DATA ''No file key provided''), w)
      \<and> getAsBuffer svc fd w =
        (Rejected (MedusaError INVALID_DATA ''No file key provided''), w)
      \<and> getDownloadStream svc fd w =
        (Rejected (MedusaError INVALID_DATA ''No file key provided''), w)
      \<and> delete svc (One fd) w =
        (Rejected (MedusaError INVALID_DATA ''No file key provided''), w)
      \<and> delete svc (Many (fd # fs)) w =
        (Rejected (MedusaError INVALID_DATA ''No file key provided''), w)"
    by (simp add: getPresignedDownloadUrl_def getAsBuffer_def getDownloadStream_def
        delete_def as_array_def)
  have many: "(\<exists>f\<in>set fs. falsy (opt_fileKey f)) \<longrightarrow>
      fst (delete svc (Many fs) w) = Rejected (MedusaError INVALID_DATA ''No file key provided'')
      \<and> new_calls w (snd (delete svc (Many fs) w)) =
          map (\<lambda>f. RemoveObject (bucket svc) (str (opt_fileKey f)))
              (takeWhile (\<lambda>f. \<not> falsy (opt_fileKey f)) fs)"
    using delete_loop_absent [of fs svc w] delete_calls [of svc "Many fs" w]
    by (simp add: delete_def as_array_def)
  from up pu single many show ?thesis by blast
qed

theorem required_field_checked_first_witness:
  "falsy (opt_filename (Some \<lparr>filename = Some [], mimeType = ''image/png'', content = [7]\<rparr>)) \<and>
   upload test_env (test_service mem_Client)
     (Some \<lparr>filename = Some [], mimeType = ''image/png'', content = [7]\<rparr>) stocked_world =
     (Rejected (MedusaError INVALID_DATA ''No filename provided''), stocked_world) \<and>
   falsy (opt_filename (None :: ProviderGetPresignedUploadUrlDTO option)) \<and>
   getPresignedUploadUrl (test_service mem_Client) None stocked_world =
     (Rejected (MedusaError INVALID_DATA ''No filename provided''), stocked_world) \<and>
   falsy (opt_fileKey (Some \<lparr>fileKey = None\<rparr>)) \<and>
   getPresignedDownloadUrl (test_service mem_Client) (Some \<lparr>fileKey = None\<rparr>) stocked_world =
     (Rejected (MedusaError INVALID_DATA ''No file key provided''), stocked_world) \<and>
   getAsBuffer (test_service mem_Client) (Some \<lparr>fileKey = None\<rparr>) stocked_world =
     (Rejected (MedusaError INVALID_DATA ''No file key provided''), stocked_world) \<and>
   getDownloadStream (test_service mem_Client) (Some \<lparr>fileKey = None\<rparr>) stocked_world =
     (Rejected (MedusaError INVALID_DATA ''No file key provided''), stocked_world) \<and>
   delete (test_service mem_Client) (One (Some \<lparr>fileKey = None\<rparr>)) stocked_world =
     (Rejected (MedusaError INVALID_DATA ''No file key provided''), stocked_world) \<and>
   None \<in> set [Some \<lparr>fileKey = Some ''a''\<rparr>, None] \<and> falsy (opt_fileKey None) \<and>
   fst (delete (test_service mem_Client) (Many [Some \<lparr>fileKey = Some ''a''\<rparr>, None])
          stocked_world) = Rejected (MedusaError INVALID_DATA ''No file key provided'') \<and>
   new_calls stocked_world
     (snd (delete (test_service mem_Client) (Many [Some \<lparr>fileKey = Some ''a''\<rparr>, None])
          stocked_world)) = [RemoveObject ''medusa-media'' ''a'']"
  using required_field_checked_first
    [where dto = "Some \<lparr>filename = Some [], mimeType = ''image/png'', content = [7]\<rparr>"
       and env = test_env and svc = "test_service mem_Client" and w = stocked_world
       and pu = None and fd = "Some \<lparr>fileKey = None\<rparr>"
       and fs = "[Some \<lparr>fileKey = Some ''a''\<rparr>, None]"]
  by (simp add: falsy_def opt_fileKey_def opt_filename_def str_def test_service_def)

subsection \<open>Deleting\<close>

text \<open>
  Claim C4, as stated, fails: \<open>delete\<close> of an array rejects at the first entry without a
  \<open>fileKey\<close>, after the entries before it have been removed. The store holds the object
  \<open>a\<close> before the call and is empty after it, although the call rejects.
\<close>

theorem delete_keeps_earlier_removals:
  "fst (delete (test_service mem_Client) (Many [Some \<lparr>fileKey = Some ''a''\<rparr>, None])
          stocked_world) = Rejected (MedusaError INVALID_DATA ''No file key provided'') \<and>
   store stocked_world = [((''medusa-media'', ''a''), [1, 2, 3])] \<and>
   store (snd (delete (test_service mem_Client) (Many [Some \<lparr>fileKey = Some ''a''\<rparr>, None])
          stocked_world)) = []"
  by (simp add: delete_def as_array_def falsy_def opt_fileKey_def str_def test_service_def
      mem_Client_def stocked_world_def invoke_def logger_def Let_def)

text \<open>
  Claim C4, amended. \<open>delete\<close> throws nothing but the \<open>INVALID_DATA\<close> error of an entry
  without a \<open>fileKey\<close>. When it does, the world is the one a successful \<open>delete\<close> of
  the entries before that entry leaves: their removals have been requested, in order,
  and are not undone. The world is unchanged when there is no entry before it, as for a
  single DTO.
\<close>

theorem delete_rejection:
  "delete svc fileData w = (Rejected t, w') \<longrightarrow>
     t = MedusaError INVALID_DATA ''No file key provided'' \<and>
     (\<exists>pre d rest.
        as_array fileData = pre @ d # rest \<and>
        (\<forall>f\<in>set pre. \<not> falsy (opt_fileKey f)) \<and> falsy (opt_fileKey d) \<and>
        delete svc (Many pre) w = (Resolved (), w') \<and>
        new_calls w w' = map (\<lambda>f. RemoveObject (bucket svc) (str (opt_fileKey f))) pre \<and>
        (pre = [] \<longrightarrow> w' = w))"
proof
  assume rej: "delete svc fileData w = (Rejected t, w')"
  then have "delete_loop svc (as_array fileData) w = (Rejected t, w')"
    by (simp add: delete_def)
  from delete_loop_rejected [OF this] obtain pre d rest where
    t: "t = MedusaError INVALID_DATA ''No file key provided''" and
    arr: "as_array fileData = pre @ d # rest" and
    pre: "\<forall>f\<in>set pre. \<not> falsy (opt_fileKey f)" and
    d: "falsy (opt_fileKey d)" and
    run: "delete_loop svc pre w = (Resolved (), w')"
    by blast
  have del: "delete svc (Many pre) w = (Resolved (), w')"
    using run by (simp add: delete_def as_array_def)
  have "takeWhile (\<lambda>f. \<not> falsy (opt_fileKey f)) pre = pre"
    using pre by (simp add: takeWhile_eq_all_conv)
  with delete_calls [of svc "Many pre" w] del
  have nc: "new_calls w w' = map (\<lambda>f. RemoveObject (bucket svc) (str (opt_fileKey f))) pre"
    by (simp add: as_array_def)
  have "pre = [] \<longrightarrow> w' = w" using run by auto
  with t arr pre d del nc
  show "t = MedusaError INVALID_DATA ''No file key provided'' \<and>
     (\<exists>pre d rest.
        as_array fileData = pre @ d # rest \<and>
        (\<forall>f\<in>set pre. \<not> falsy (opt_fileKey f)) \<and> falsy (opt_fileKey d) \<and>
        delete svc (Many pre) w = (Resolved (), w') \<and>
        new_calls w w' = map (\<lambda>f. RemoveObject (bucket svc) (str (opt_fileKey f))) pre \<and>
        (pre = [] \<longrightarrow> w' = w))"
    by blast
qed

theorem delete_rejection_witness:
  "delete (test_service mem_Client) (Many [Some \<lparr>fileKey = Some ''a''\<rparr>, None]) stocked_world =
     (Rejected (MedusaError INVALID_DATA ''No file key provided''),
      \<lparr>store = [], calls = [RemoveObject ''medusa-media'' ''a''],
       logs = [(Info, ''Successfully deleted file a from MinIO bucket medusa-media'')]\<rparr>) \<and>
   (\<exists>pre d rest.
        as_array (Many [Some \<lparr>fileKey = Some ''a''\<rparr>, None]) = pre @ d # rest \<and>
        falsy (opt_fileKey d) \<and>
        delete (test_service mem_Client) (Many pre) stocked_world =
          (Resolved (),
           \<lparr>store = [], calls = [RemoveObject ''medusa-media'' ''a''],
            logs = [(Info, ''Successfully deleted file a from MinIO bucket medusa-media'')]\<rparr>))"
proof -
  have run: "delete (test_service mem_Client) (Many [Some \<lparr>fileKey = Some ''a''\<rparr>, None])
      stocked_world =
     (Rejected (MedusaError INVALID_DATA ''No file key provided''),
      \<lparr>store = [], calls = [RemoveObject ''medusa-media'' ''a''],
       logs = [(Info, ''Successfully deleted file a from MinIO bucket medusa-media'')]\<rparr>)"
    by (simp add: delete_def as_array_def falsy_def opt_fileKey_def str_def test_service_def
        mem_Client_def stocked_world_def invoke_def logger_def Let_def)
  from delete_rejection [THEN mp, OF run] run show ?thesis by blast
qed

text \<open>
  Claim C3. For a delete input whose \<open>fileKey\<close> is present, a failing \<open>removeObject\<close>
  does not make \<open>delete\<close> throw: the error is caught, one warning naming the key and the
  client's message is logged, and the call returns normally (for a single DTO) or the
  loop goes on with the remaining entries (for an array). A \<open>delete\<close> whose entries all
  have a \<open>fileKey\<close> resolves, whatever the client answers.
\<close>

theorem delete_failure_is_logged_not_thrown:
  "(\<not> falsy (opt_fileKey d) \<and>
      removeObject (client svc) (bucket svc) (str (opt_fileKey d)) (store w) = (Inl e, s')
    \<longrightarrow> delete svc (One d) w =
          (Resolved (),
           w\<lparr>store := s',
             calls := calls w @ [RemoveObject (bucket svc) (str (opt_fileKey d))],
             logs := logs w @ [(Warn, ''Failed to delete file '' @ str (opt_fileKey d) @ '': ''
                                      @ message e)]\<rparr>)
        \<and> delete svc (Many (d # fs)) w =
          delete svc (Many fs)
            (w\<lparr>store := s',
               calls := calls w @ [RemoveObject (bucket svc) (str (opt_fileKey d))],
               logs := logs w @ [(Warn, ''Failed to delete file '' @ str (opt_fileKey d) @ '': ''
                                        @ message e)]\<rparr>))
   \<and> ((\<forall>f\<in>set fs. \<not> falsy (opt_fileKey f))
        \<longrightarrow> fst (delete svc (Many fs) w) = Resolved ())"
  by (simp add: delete_def as_array_def Let_def invoke_def logger_def delete_loop_all_present)

theorem delete_failure_is_logged_not_thrown_witness:
  "\<not> falsy (opt_fileKey (Some \<lparr>fileKey = Some ''zz''\<rparr>)) \<and>
   removeObject (client (test_service mem_Client)) (bucket (test_service mem_Client))
     (str (opt_fileKey (Some \<lparr>fileKey = Some ''zz''\<rparr>))) (store stocked_world)
     = (Inl (Error ''NoSuchKey''), store stocked_world) \<and>
   delete (test_service mem_Client) (One (Some \<lparr>fileKey = Some ''zz''\<rparr>)) stocked_world =
     (Resolved (),
      stocked_world\<lparr>calls := [RemoveObject ''medusa-media'' ''zz''],
                     logs := [(Warn, ''Failed to delete file zz: NoSuchKey'')]\<rparr>) \<and>
   \<not> falsy (opt_fileKey (Some \<lparr>fileKey = Some ''a''\<rparr>)) \<and>
   fst (delete (test_service mem_Client) (Many [Some \<lparr>fileKey = Some ''a''\<rparr>]) stocked_world)
     = Resolved ()"
  using delete_failure_is_logged_not_thrown
    [where d = "Some \<lparr>fileKey = Some ''zz''\<rparr>" and svc = "test_service mem_Client"
       and w = stocked_world and e = "Error ''NoSuchKey''" and s' = "store stocked_world"
       and fs = "[Some \<lparr>fileKey = Some ''a''\<rparr>]"]
  by (simp add: falsy_def opt_fileKey_def str_def test_service_def mem_Client_def
      stocked_world_def)

subsection \<open>Presigned URLs\<close>

text \<open>
  Claim C5. With a \<open>fileKey\<close> present, \<open>getPresignedDownloadUrl\<close> sends exactly one
  request, a \<open>presignedGetObject\<close> for the service's bucket and that key with an expiry
  of \<open>24 * 60 * 60 = 86400\<close> seconds, and what it returns is what the client answers
  to that very call: the URL the client gives for an expiry of 86400 seconds, or a
  \<open>MedusaError\<close> carrying the client's message. With a \<open>filename\<close> present,
  \<open>getPresignedUploadUrl\<close> does the same with one \<open>presignedPutObject\<close> and an expiry
  of \<open>15 * 60 = 900\<close> seconds. Neither expiry depends on the input.
\<close>

theorem presigned_expiry:
  "(\<not> falsy (opt_fileKey fd) \<longrightarrow>
      new_calls w (snd (getPresignedDownloadUrl svc fd w)) =
        [PresignedGetObject (bucket svc) (str (opt_fileKey fd)) 86400])
   \<and> (\<not> falsy (opt_filename pu) \<longrightarrow>
      new_calls w (snd (getPresignedUploadUrl svc pu w)) =
        [PresignedPutObject (bucket svc) (str (opt_filename pu)) 900])
   \<and> (\<not> falsy (opt_fileKey fd) \<and>
       presignedGetObject (client svc) (bucket svc) (str (opt_fileKey fd)) (24 * 60 * 60)
         (store w) = (rd, sd)
      \<longrightarrow> store (snd (getPresignedDownloadUrl svc fd w)) = sd
        \<and> fst (getPresignedDownloadUrl svc fd w) =
            (case rd of
               Inr u \<Rightarrow> Resolved u
             | Inl e \<Rightarrow> Rejected (MedusaError UNEXPECTED_STATE
                                    (''Failed to generate presigned URL: '' @ message e))))
   \<and> (\<not> falsy (opt_filename pu) \<and>
       presignedPutObject (client svc) (bucket svc) (str (opt_filename pu)) (15 * 60)
         (store w) = (ru, su)
      \<longrightarrow> store (snd (getPresignedUploadUrl svc pu w)) = su
        \<and> fst (getPresignedUploadUrl svc pu w) =
            (case ru of
               Inr u \<Rightarrow> Resolved \<lparr>url = u, key = str (opt_filename pu)\<rparr>
             | Inl e \<Rightarrow> Rejected (MedusaError UNEXPECTED_STATE
                                    (''Failed to generate presigned upload URL: ''
                                     @ message e))))"
proof -
  have labels: "(\<not> falsy (opt_fileKey fd) \<longrightarrow>
      new_calls w (snd (getPresignedDownloadUrl svc fd w)) =
        [PresignedGetObject (bucket svc) (str (opt_fileKey fd)) 86400])
   \<and> (\<not> falsy (opt_filename pu) \<longrightarrow>
      new_calls w (snd (getPresignedUploadUrl svc pu w)) =
        [PresignedPutObject (bucket svc) (str (opt_filename pu)) 900])"
    by (simp add: getPresignedDownloadUrl_calls getPresignedUploadUrl_calls)
  have dl: "\<not> falsy (opt_fileKey fd) \<and>
       presignedGetObject (client svc) (bucket svc) (str (opt_fileKey fd)) (24 * 60 * 60)
         (store w) = (rd, sd)
      \<longrightarrow> store (snd (getPresignedDownloadUrl svc fd w)) = sd
        \<and> fst (getPresignedDownloadUrl svc fd w) =
            (case rd of
               Inr u \<Rightarrow> Resolved u
             | Inl e \<Rightarrow> Rejected (MedusaError UNEXPECTED_STATE
                                    (''Failed to generate presigned URL: '' @ message e)))"
    using getPresignedDownloadUrl_outcome [of fd svc w rd sd]
    by (cases rd) simp_all
  have ul: "\<not> falsy (opt_filename pu) \<and>
       presignedPutObject (client svc) (bucket svc) (str (opt_filename pu)) (15 * 60)
         (store w) = (ru, su)
      \<longrightarrow> store (snd (getPresignedUploadUrl svc pu w)) = su
        \<and> fst (getPresignedUploadUrl svc pu w) =
            (case ru of
               Inr u \<Rightarrow> Resolved \<lparr>url = u, key = str (opt_filename pu)\<rparr>
             | Inl e \<Rightarrow> Rejected (MedusaError UNEXPECTED_STATE
                                    (''Failed to generate presigned upload URL: ''
                                     @ message e)))"
    using getPresignedUploadUrl_outcome [of pu svc w ru su]
    by (cases ru) simp_all
  from labels dl ul show ?thesis by blast
qed

theorem presigned_expiry_witness:
  "\<not> falsy (opt_fileKey (Some \<lparr>fileKey = Some ''a''\<rparr>)) \<and>
   new_calls empty_world
     (snd (getPresignedDownloadUrl (test_service mem_Client) (Some \<lparr>fileKey = Some ''a''\<rparr>)
        empty_world)) = [PresignedGetObject ''medusa-media'' ''a'' 86400] \<and>
   presignedGetObject (client (test_service mem_Client)) (bucket (test_service mem_Client))
     ''a'' (24 * 60 * 60) (store empty_world) =
     (Inr ''https://minio.test/medusa-media/a?expires=24h'', []) \<and>
   fst (getPresignedDownloadUrl (test_service mem_Client) (Some \<lparr>fileKey = Some ''a''\<rparr>)
          empty_world) = Resolved ''https://minio.test/medusa-media/a?expires=24h'' \<and>
   \<not> falsy (opt_filename (Some \<lparr>filename = Some ''photo.png''\<rparr>)) \<and>
   new_calls empty_world
     (snd (getPresignedUploadUrl (test_service mem_Client) (Some \<lparr>filename = Some ''photo.png''\<rparr>)
        empty_world)) = [PresignedPutObject ''medusa-media'' ''photo.png'' 900] \<and>
   presignedPutObject (client (test_service mem_Client)) (bucket (test_service mem_Client))
     ''photo.png'' (15 * 60) (store empty_world) =
     (Inr ''https://minio.test/medusa-media/photo.png?expires=15m'', []) \<and>
   fst (getPresignedUploadUrl (test_service mem_Client) (Some \<lparr>filename = Some ''photo.png''\<rparr>)
          empty_world) =
     Resolved \<lparr>url = ''https://minio.test/medusa-media/photo.png?expires=15m'',
               key = ''photo.png''\<rparr>"
  using presigned_expiry
    [where fd = "Some \<lparr>fileKey = Some ''a''\<rparr>" and svc = "test_service mem_Client"
       and w = empty_world and pu = "Some \<lparr>filename = Some ''photo.png''\<rparr>"
       and rd = "Inr ''https://minio.test/medusa-media/a?expires=24h''" and sd = "[]"
       and ru = "Inr ''https://minio.test/medusa-media/photo.png?expires=15m''" and su = "[]"]
  by (simp add: falsy_def opt_fileKey_def opt_filename_def str_def test_service_def
      mem_Client_def expiry_suffix_def empty_world_def)

subsection \<open>Errors of the client\<close>

text \<open>
  Claim C2, as stated, fails for \<open>delete\<close>, which suppresses the client's error: with a
  client whose \<open>removeObject\<close> throws, \<open>delete\<close> resolves and only a warning is logged.
\<close>

theorem delete_swallows_client_error:
  "removeObject (client (test_service down_Client)) (bucket (test_service down_Client)) ''a''
     (store empty_world) = (Inl (Error ''connect ECONNREFUSED''), store empty_world) \<and>
   delete (test_service down_Client) (One (Some \<lparr>fileKey = Some ''a''\<rparr>)) empty_world =
     (Resolved (),
      \<lparr>store = [], calls = [RemoveObject ''medusa-media'' ''a''],
       logs = [(Warn, ''Failed to delete file a: connect ECONNREFUSED'')]\<rparr>)"
  by (simp add: delete_def as_array_def falsy_def opt_fileKey_def str_def test_service_def
      down_Client_def empty_world_def invoke_def logger_def Let_def)

text \<open>
  Claim C2, amended. In \<open>upload\<close>, \<open>getPresignedDownloadUrl\<close>, \<open>getPresignedUploadUrl\<close>,
  \<open>getAsBuffer\<close> and \<open>getDownloadStream\<close>, an error thrown by the client's call is
  rethrown as a \<open>MedusaError\<close> of type \<open>UNEXPECTED_STATE\<close> whose message is the
  operation's prefix followed by the client's message. \<open>delete\<close> is the exception: a
  failing \<open>removeObject\<close> is not rethrown. No operation, \<open>delete\<close> included, ever
  rejects with the client's own error object.
\<close>

theorem client_errors_rethrown:
  "(dto = Some f \<and> filename f = Some fname \<and> fname \<noteq> [] \<and> ulid env (store w) = (u, sa) \<and>
    fk = name (path_parse env fname) @ ''-'' @ u @ ext (path_parse env fname) \<and>
    buf = Buffer_from_binary (content f) \<and>
    putObject (client svc) (bucket svc) fk buf (length buf)
      [(''Content-Type'', mimeType f), (''x-amz-meta-original-filename'', fname),
       (''x-amz-acl'', ''public-read'')] sa = (Inl e, sb)
    \<longrightarrow> fst (upload env svc dto w) =
          Rejected (MedusaError UNEXPECTED_STATE (''Failed to upload file: '' @ message e)))
   \<and> (\<not> falsy (opt_fileKey fd) \<and>
       presignedGetObject (client svc) (bucket svc) (str (opt_fileKey fd)) 86400 (store w)
         = (Inl e, sb)
    \<longrightarrow> fst (getPresignedDownloadUrl svc fd w) =
          Rejected (MedusaError UNEXPECTED_STATE
                      (''Failed to generate presigned URL: '' @ message e)))
   \<and> (\<not> falsy (opt_filename pu) \<and>
       presignedPutObject (client svc) (bucket svc) (str (opt_filename pu)) 900 (store w)
         = (Inl e, sb)
    \<longrightarrow> fst (getPresignedUploadUrl svc pu w) =
          Rejected (MedusaError UNEXPECTED_STATE
                      (''Failed to generate presigned upload URL: '' @ message e)))
   \<and> (\<not> falsy (opt_fileKey fd) \<and>
       getObject (client svc) (bucket svc) (str (opt_fileKey fd)) (store w) = (Inl e, sb)
    \<longrightarrow> fst (getAsBuffer svc fd w) =
          Rejected (MedusaError UNEXPECTED_STATE (''Failed to get buffer: '' @ message e))
      \<and> fst (getDownloadStream svc fd w) =
          Rejected (MedusaError UNEXPECTED_STATE
                      (''Failed to get download stream: '' @ message e)))
   \<and> (\<not> falsy (opt_fileKey fd) \<and>
       removeObject (client svc) (bucket svc) (str (opt_fileKey fd)) (store w) = (Inl e, sb)
    \<longrightarrow> fst (delete svc (One fd) w) = Resolved ())
   \<and> fst (upload env svc dto w) \<noteq> Rejected (Raw x)
   \<and> fst (delete svc fileData w) \<noteq> Rejected (Raw x)
   \<and> fst (getPresignedDownloadUrl svc fd w) \<noteq> Rejected (Raw x)
   \<and> fst (getPresignedUploadUrl svc pu w) \<noteq> Rejected (Raw x)
   \<and> fst (getAsBuffer svc fd w) \<noteq> Rejected (Raw x)
   \<and> fst (getDownloadStream svc fd w) \<noteq> Rejected (Raw x)"
proof -
  have raw_up: "fst (upload env svc dto w) \<noteq> Rejected (Raw x)"
    by (simp add: upload_def Let_def split: option.splits prod.splits sum.splits)
  have raw_rm: "fst (delete svc fileData w) \<noteq> Rejected (Raw x)"
    using delete_loop_rejected [of svc "as_array fileData" w "Raw x"
        "snd (delete_loop svc (as_array fileData) w)"]
    by (auto simp: delete_def Let_def prod_eq_iff)
  have raw_dl: "fst (getPresignedDownloadUrl svc fd w) \<noteq> Rejected (Raw x)"
    by (simp add: getPresignedDownloadUrl_def Let_def split: prod.splits sum.splits)
  have raw_ul: "fst (getPresignedUploadUrl svc pu w) \<noteq> Rejected (Raw x)"
    by (simp add: getPresignedUploadUrl_def Let_def split: prod.splits sum.splits)
  have raw_buf: "fst (getAsBuffer svc fd w) \<noteq> Rejected (Raw x)"
    by (simp add: getAsBuffer_def Let_def split: prod.splits sum.splits option.splits)
  have raw_st: "fst (getDownloadStream svc fd w) \<noteq> Rejected (Raw x)"
    by (simp add: getDownloadStream_def Let_def split: prod.splits sum.splits)
  have up: "dto = Some f \<and> filename f = Some fname \<and> fname \<noteq> [] \<and> ulid env (store w) = (u, sa) \<and>
    fk = name (path_parse env fname) @ ''-'' @ u @ ext (path_parse env fname) \<and>
    buf = Buffer_from_binary (content f) \<and>
    putObject (client svc) (bucket svc) fk buf (length buf)
      [(''Content-Type'', mimeType f), (''x-amz-meta-original-filename'', fname),
       (''x-amz-acl'', ''public-read'')] sa = (Inl e, sb)
    \<longrightarrow> fst (upload env svc dto w) =
          Rejected (MedusaError UNEXPECTED_STATE (''Failed to upload file: '' @ message e))"
    by (clarsimp simp: upload_def falsy_def str_def invoke_def Let_def)
  have dl: "\<not> falsy (opt_fileKey fd) \<and>
       presignedGetObject (client svc) (bucket svc) (str (opt_fileKey fd)) 86400 (store w)
         = (Inl e, sb)
    \<longrightarrow> fst (getPresignedDownloadUrl svc fd w) =
          Rejected (MedusaError UNEXPECTED_STATE
                      (''Failed to generate presigned URL: '' @ message e))"
    by (simp add: getPresignedDownloadUrl_def invoke_def Let_def)
  have ul: "\<not> falsy (opt_filename pu) \<and>
       presignedPutObject (client svc) (bucket svc) (str (opt_filename pu)) 900 (store w)
         = (Inl e, sb)
    \<longrightarrow> fst (getPresignedUploadUrl svc pu w) =
          Rejected (MedusaError UNEXPECTED_STATE
                      (''Failed to generate presigned upload URL: '' @ message e))"
    by (simp add: getPresignedUploadUrl_def invoke_def Let_def)
  have rd: "\<not> falsy (opt_fileKey fd) \<and>
       getObject (client svc) (bucket svc) (str (opt_fileKey fd)) (store w) = (Inl e, sb)
    \<longrightarrow> fst (getAsBuffer svc fd w) =
          Rejected (MedusaError UNEXPECTED_STATE (''Failed to get buffer: '' @ message e))
      \<and> fst (getDownloadStream svc fd w) =
          Rejected (MedusaError UNEXPECTED_STATE
                      (''Failed to get download stream: '' @ message e))"
    by (simp add: getAsBuffer_def getDownloadStream_def invoke_def Let_def)
  have rm: "\<not> falsy (opt_fileKey fd) \<and>
       removeObject (client svc) (bucket svc) (str (opt_fileKey fd)) (store w) = (Inl e, sb)
    \<longrightarrow> fst (delete svc (One fd) w) = Resolved ()"
    by (simp add: delete_def as_array_def invoke_def Let_def)
  from up dl ul rd rm raw_up raw_rm raw_dl raw_ul raw_buf raw_st show ?thesis by blast
qed

theorem client_errors_rethrown_witness:
  "ulid test_env (store empty_world) = (''01ARZ3NDEKTSV4RRFFQ69G5FAV'', []) \<and>
   putObject (client (test_service down_Client)) (bucket (test_service down_Client))
     ''photo-01ARZ3NDEKTSV4RRFFQ69G5FAV.png'' [1, 2] 2
     [(''Content-Type'', ''image/png''), (''x-amz-meta-original-filename'', ''photo.png''),
      (''x-amz-acl'', ''public-read'')] [] = (Inl (Error ''connect ECONNREFUSED''), []) \<and>
   fst (upload test_env (test_service down_Client)
          (Some \<lparr>filename = Some ''photo.png'', mimeType = ''image/png'', content = [1, 258]\<rparr>)
          empty_world) =
     Rejected (MedusaError UNEXPECTED_STATE ''Failed to upload file: connect ECONNREFUSED'') \<and>
   \<not> falsy (opt_fileKey (Some \<lparr>fileKey = Some ''a''\<rparr>)) \<and>
   presignedGetObject (client (test_service down_Client)) (bucket (test_service down_Client))
     ''a'' 86400 (store empty_world) = (Inl (Error ''connect ECONNREFUSED''), []) \<and>
   fst (getPresignedDownloadUrl (test_service down_Client) (Some \<lparr>fileKey = Some ''a''\<rparr>)
          empty_world) =
     Rejected (MedusaError UNEXPECTED_STATE
                 ''Failed to generate presigned URL: connect ECONNREFUSED'') \<and>
   \<not> falsy (opt_filename (Some \<lparr>filename = Some ''photo.png''\<rparr>)) \<and>
   presignedPutObject (client (test_service down_Client)) (bucket (test_service down_Client))
     ''photo.png'' 900 (store empty_world) = (Inl (Error ''connect ECONNREFUSED''), []) \<and>
   fst (getPresignedUploadUrl (test_service down_Client) (Some \<lparr>filename = Some ''photo.png''\<rparr>)
          empty_world) =
     Rejected (MedusaError UNEXPECTED_STATE
                 ''Failed to generate presigned upload URL: connect ECONNREFUSED'') \<and>
   getObject (client (test_service down_Client)) (bucket (test_service down_Client))
     ''a'' (store empty_world) = (Inl (Error ''connect ECONNREFUSED''), []) \<and>
   fst (getAsBuffer (test_service down_Client) (Some \<lparr>fileKey = Some ''a''\<rparr>) empty_world) =
     Rejected (MedusaError UNEXPECTED_STATE ''Failed to get buffer: connect ECONNREFUSED'') \<and>
   fst (getDownloadStream (test_service down_Client) (Some \<lparr>fileKey = Some ''a''\<rparr>)
          empty_world) =
     Rejected (MedusaError UNEXPECTED_STATE
                 ''Failed to get download stream: connect ECONNREFUSED'') \<and>
   removeObject (client (test_service down_Client)) (bucket (test_service down_Client))
     ''a'' (store empty_world) = (Inl (Error ''connect ECONNREFUSED''), []) \<and>
   fst (delete (test_service down_Client) (One (Some \<lparr>fileKey = Some ''a''\<rparr>)) empty_world)
     = Resolved ()"
  using client_errors_rethrown
    [where dto = "Some \<lparr>filename = Some ''photo.png'', mimeType = ''image/png'',
                         content = [1, 258]\<rparr>"
       and f = "\<lparr>filename = Some ''photo.png'', mimeType = ''image/png'', content = [1, 258]\<rparr>"
       and fname = "''photo.png''" and env = test_env and w = empty_world
       and u = "''01ARZ3NDEKTSV4RRFFQ69G5FAV''" and sa = "[]"
       and fk = "''photo-01ARZ3NDEKTSV4RRFFQ69G5FAV.png''" and buf = "[1, 2]"
       and svc = "test_service down_Client" and e = "Error ''connect ECONNREFUSED''"
       and sb = "[]" and fd = "Some \<lparr>fileKey = Some ''a''\<rparr>"
       and pu = "Some \<lparr>filename = Some ''photo.png''\<rparr>"]
  by (simp add: falsy_def opt_fileKey_def opt_filename_def str_def test_service_def
      down_Client_def test_env_def empty_world_def Buffer_from_binary_def)

subsection \<open>Reading an object into a buffer\<close>

text \<open>
  Claim C7. With a \<open>fileKey\<close> present, \<open>getAsBuffer\<close> sends exactly one request, a
  \<open>getObject\<close> for the service's bucket and that key. When the stream it yields emits the
  chunks \<open>chunks\<close> and then \<open>end\<close>, the result is their concatenation in the order of
  arrival; when it emits an \<open>error\<close> before any \<open>end\<close>, the call rejects with a
  \<open>MedusaError\<close> and the chunks received so far are dropped. Events after the first
  \<open>end\<close> or \<open>error\<close> (\<open>rest\<close>) have no effect.
\<close>

theorem getAsBuffer_collects_stream:
  "\<not> falsy (opt_fileKey fd) \<longrightarrow>
     new_calls w (snd (getAsBuffer svc fd w)) = [GetObject (bucket svc) (str (opt_fileKey fd))] \<and>
     (getObject (client svc) (bucket svc) (str (opt_fileKey fd)) (store w) = (Inr stream, s')
      \<longrightarrow> (stream = map Data chunks @ End # rest
             \<longrightarrow> fst (getAsBuffer svc fd w) = Resolved (concat chunks))
        \<and> (stream = map Data chunks @ StreamError e # rest
             \<longrightarrow> fst (getAsBuffer svc fd w) =
                   Rejected (MedusaError UNEXPECTED_STATE
                               (''Failed to get buffer: '' @ message e))))"
proof (intro impI conjI)
  assume k: "\<not> falsy (opt_fileKey fd)"
  then show "new_calls w (snd (getAsBuffer svc fd w)) =
      [GetObject (bucket svc) (str (opt_fileKey fd))]"
    by (simp add: getAsBuffer_calls)
next
  assume k: "\<not> falsy (opt_fileKey fd)"
    and g: "getObject (client svc) (bucket svc) (str (opt_fileKey fd)) (store w) = (Inr stream, s')"
    and s: "stream = map Data chunks @ End # rest"
  have "collect stream [] = Some (Inr (Buffer_concat chunks))"
    using collect_ended [of chunks rest "[]"] s by simp
  with k g show "fst (getAsBuffer svc fd w) = Resolved (concat chunks)"
    by (simp add: getAsBuffer_def invoke_def Let_def Buffer_concat_def)
next
  assume k: "\<not> falsy (opt_fileKey fd)"
    and g: "getObject (client svc) (bucket svc) (str (opt_fileKey fd)) (store w) = (Inr stream, s')"
    and s: "stream = map Data chunks @ StreamError e # rest"
  have "collect stream [] = Some (Inl e)"
    using collect_failed [of chunks e rest "[]"] s by simp
  with k g show "fst (getAsBuffer svc fd w) =
      Rejected (MedusaError UNEXPECTED_STATE (''Failed to get buffer: '' @ message e))"
    by (simp add: getAsBuffer_def invoke_def Let_def)
qed

theorem getAsBuffer_collects_stream_witness:
  "\<not> falsy (opt_fileKey (Some \<lparr>fileKey = Some ''a''\<rparr>)) \<and>
   new_calls stocked_world
     (snd (getAsBuffer (test_service mem_Client) (Some \<lparr>fileKey = Some ''a''\<rparr>) stocked_world))
     = [GetObject ''medusa-media'' ''a''] \<and>
   getObject (client (test_service mem_Client)) (bucket (test_service mem_Client)) ''a''
     (store stocked_world) =
     (Inr (map Data [[1], [2], [3]] @ End # []), store stocked_world) \<and>
   fst (getAsBuffer (test_service mem_Client) (Some \<lparr>fileKey = Some ''a''\<rparr>) stocked_world)
     = Resolved [1, 2, 3] \<and>
   getObject (client (test_service flaky_Client)) (bucket (test_service flaky_Client)) ''a''
     (store stocked_world) =
     (Inr (map Data [[1, 2]] @ StreamError (Error ''aborted'') # []), store stocked_world) \<and>
   fst (getAsBuffer (test_service flaky_Client) (Some \<lparr>fileKey = Some ''a''\<rparr>) stocked_world)
     = Rejected (MedusaError UNEXPECTED_STATE ''Failed to get buffer: aborted'')"
  using getAsBuffer_collects_stream
    [where fd = "Some \<lparr>fileKey = Some ''a''\<rparr>" and svc = "test_service mem_Client"
       and w = stocked_world and stream = "map Data [[1], [2], [3]] @ End # []"
       and s' = "store stocked_world" and chunks = "[[1], [2], [3]]" and rest = "[]"]
    getAsBuffer_collects_stream
    [where fd = "Some \<lparr>fileKey = Some ''a''\<rparr>" and svc = "test_service flaky_Client"
       and w = stocked_world
       and stream = "map Data [[1, 2]] @ StreamError (Error ''aborted'') # []"
       and s' = "store stocked_world" and chunks = "[[1, 2]]" and rest = "[]"
       and e = "Error ''aborted''"]
  by (simp add: falsy_def opt_fileKey_def str_def test_service_def mem_Client_def
      flaky_Client_def stocked_world_def)

subsection \<open>The bucket\<close>

text \<open>
  Claim C8. The bucket of a constructed service is \<open>options.bucket\<close> when that is a
  non-empty string and \<open>medusa-media\<close> otherwise. The service is a value that no
  operation changes. Each of \<open>upload\<close>, \<open>delete\<close>, the two presign operations,
  \<open>getAsBuffer\<close> and \<open>getDownloadStream\<close>, given its required field, calls its client
  method with exactly this bucket: the outside state it leaves and the result it gives
  are those of the client's method applied to \<open>bucket svc\<close>, it sends that one request
  (one per entry for \<open>delete\<close>), and no request of any operation names another bucket.
\<close>

theorem bucket_fixed_at_construction:
  "(fst (constructor env options w) = Inr (svc', task) \<longrightarrow>
      bucket svc' = (case cfg_bucket options of
                       None \<Rightarrow> ''medusa-media''
                     | Some b \<Rightarrow> if b = [] then ''medusa-media'' else b))
   \<and> (dto = Some f \<and> \<not> falsy (filename f) \<and> ulid env (store w) = (u, sa) \<and>
       putObject (client svc) (bucket svc)
         (name (path_parse env (str (filename f))) @ ''-'' @ u
          @ ext (path_parse env (str (filename f))))
         (Buffer_from_binary (content f)) (length (Buffer_from_binary (content f)))
         [(''Content-Type'', mimeType f),
          (''x-amz-meta-original-filename'', str (filename f)),
          (''x-amz-acl'', ''public-read'')] sa = (rp, sb)
      \<longrightarrow> store (snd (upload env svc dto w)) = sb
        \<and> (case rp of
              Inr _ \<Rightarrow> \<exists>res. fst (upload env svc dto w) = Resolved res
            | Inl e \<Rightarrow> fst (upload env svc dto w) =
                        Rejected (MedusaError UNEXPECTED_STATE
                                    (''Failed to upload file: '' @ message e)))
        \<and> new_calls w (snd (upload env svc dto w)) =
            [PutObject (bucket svc)
               (name (path_parse env (str (filename f))) @ ''-'' @ u
                @ ext (path_parse env (str (filename f))))
               (Buffer_from_binary (content f)) (length (Buffer_from_binary (content f)))
               [(''Content-Type'', mimeType f),
                (''x-amz-meta-original-filename'', str (filename f)),
                (''x-amz-acl'', ''public-read'')]])
   \<and> (\<not> falsy (opt_fileKey d) \<and>
       removeObject (client svc) (bucket svc) (str (opt_fileKey d)) (store w) = (rr, sr)
      \<longrightarrow> delete svc (Many (d # fs)) w =
            delete svc (Many fs)
              (w\<lparr>store := sr,
                 calls := calls w @ [RemoveObject (bucket svc) (str (opt_fileKey d))],
                 logs := logs w @
                   [case rr of
                      Inr _ \<Rightarrow> (Info, ''Successfully deleted file '' @ str (opt_fileKey d)
                                       @ '' from MinIO bucket '' @ bucket svc)
                    | Inl e \<Rightarrow> (Warn, ''Failed to delete file '' @ str (opt_fileKey d)
                                       @ '': '' @ message e)]\<rparr>)
        \<and> store (snd (delete svc (One d) w)) = sr
        \<and> new_calls w (snd (delete svc (One d) w)) =
            [RemoveObject (bucket svc) (str (opt_fileKey d))])
   \<and> (\<not> falsy (opt_fileKey fd) \<and>
       presignedGetObject (client svc) (bucket svc) (str (opt_fileKey fd)) 86400 (store w)
         = (rd, sd)
      \<longrightarrow> store (snd (getPresignedDownloadUrl svc fd w)) = sd
        \<and> fst (getPresignedDownloadUrl svc fd w) =
            (case rd of
               Inr x \<Rightarrow> Resolved x
             | Inl e \<Rightarrow> Rejected (MedusaError UNEXPECTED_STATE
                                    (''Failed to generate presigned URL: '' @ message e)))
        \<and> new_calls w (snd (getPresignedDownloadUrl svc fd w)) =
            [PresignedGetObject (bucket svc) (str (opt_fileKey fd)) 86400])
   \<and> (\<not> falsy (opt_filename pu) \<and>
       presignedPutObject (client svc) (bucket svc) (str (opt_filename pu)) 900 (store w)
         = (ru, su)
      \<longrightarrow> store (snd (getPresignedUploadUrl svc pu w)) = su
        \<and> fst (getPresignedUploadUrl svc pu w) =
            (case ru of
               Inr x \<Rightarrow> Resolved \<lparr>url = x, key = str (opt_filename pu)\<rparr>
             | Inl e \<Rightarrow> Rejected (MedusaError UNEXPECTED_STATE
                                    (''Failed to generate presigned upload URL: ''
                                     @ message e)))
        \<and> new_calls w (snd (getPresignedUploadUrl svc pu w)) =
            [PresignedPutObject (bucket svc) (str (opt_filename pu)) 900])
   \<and> (\<not> falsy (opt_fileKey fd) \<and>
       getObject (client svc) (bucket svc) (str (opt_fileKey fd)) (store w) = (rg, sg)
      \<longrightarrow> store (snd (getAsBuffer svc fd w)) = sg
        \<and> fst (getAsBuffer svc fd w) =
            (case rg of
               Inl e \<Rightarrow> Rejected (MedusaError UNEXPECTED_STATE
                                    (''Failed to get buffer: '' @ message e))
             | Inr stream \<Rightarrow>
                 (case collect stream [] of
                    None \<Rightarrow> Pending
                  | Some (Inl e) \<Rightarrow>
                      Rejected (MedusaError UNEXPECTED_STATE
                                  (''Failed to get buffer: '' @ message e))
                  | Some (Inr buf) \<Rightarrow> Resolved buf))
        \<and> new_calls w (snd (getAsBuffer svc fd w)) =
            [GetObject (bucket svc) (str (opt_fileKey fd))]
        \<and> store (snd (getDownloadStream svc fd w)) = sg
        \<and> fst (getDownloadStream svc fd w) =
            (case rg of
               Inr stream \<Rightarrow> Resolved stream
             | Inl e \<Rightarrow> Rejected (MedusaError UNEXPECTED_STATE
                                    (''Failed to get download stream: '' @ message e)))
        \<and> new_calls w (snd (getDownloadStream svc fd w)) =
            [GetObject (bucket svc) (str (opt_fileKey fd))])
   \<and> (\<forall>c\<in>set (new_calls w (snd (upload env svc dto w))). call_bucket c = bucket svc)
   \<and> (\<forall>c\<in>set (new_calls w (snd (delete svc fileData w))). call_bucket c = bucket svc)
   \<and> (\<forall>c\<in>set (new_calls w (snd (getPresignedDownloadUrl svc fd w))). call_bucket c = bucket svc)
   \<and> (\<forall>c\<in>set (new_calls w (snd (getPresignedUploadUrl svc pu w))). call_bucket c = bucket svc)
   \<and> (\<forall>c\<in>set (new_calls w (snd (getAsBuffer svc fd w))). call_bucket c = bucket svc)
   \<and> (\<forall>c\<in>set (new_calls w (snd (getDownloadStream svc fd w))). call_bucket c = bucket svc)"
  (is "?ctor \<and> ?up \<and> ?rm \<and> ?dl \<and> ?ul \<and> ?rd \<and> ?b1 \<and> ?b2 \<and> ?b3 \<and> ?b4 \<and> ?b5 \<and> ?b6")
proof -
  have ctor: ?ctor
    using constructor_starts(1) [of env options w svc' task]
    by (simp add: or_default_def DEFAULT_BUCKET_def split: option.splits)
  have up: ?up
  proof (intro impI, elim conjE)
    assume h: "dto = Some f" "\<not> falsy (filename f)" "ulid env (store w) = (u, sa)"
      "putObject (client svc) (bucket svc)
         (name (path_parse env (str (filename f))) @ ''-'' @ u
          @ ext (path_parse env (str (filename f))))
         (Buffer_from_binary (content f)) (length (Buffer_from_binary (content f)))
         [(''Content-Type'', mimeType f),
          (''x-amz-meta-original-filename'', str (filename f)),
          (''x-amz-acl'', ''public-read'')] sa = (rp, sb)"
    note o = upload_outcome [OF h]
    have "case rp of
              Inr _ \<Rightarrow> \<exists>res. fst (upload env svc dto w) = Resolved res
            | Inl e \<Rightarrow> fst (upload env svc dto w) =
                        Rejected (MedusaError UNEXPECTED_STATE
                                    (''Failed to upload file: '' @ message e))"
      using o(2) by (cases rp) simp_all
    with o(1) o(3)
    show "store (snd (upload env svc dto w)) = sb
        \<and> (case rp of
              Inr _ \<Rightarrow> \<exists>res. fst (upload env svc dto w) = Resolved res
            | Inl e \<Rightarrow> fst (upload env svc dto w) =
                        Rejected (MedusaError UNEXPECTED_STATE
                                    (''Failed to upload file: '' @ message e)))
        \<and> new_calls w (snd (upload env svc dto w)) =
            [PutObject (bucket svc)
               (name (path_parse env (str (filename f))) @ ''-'' @ u
                @ ext (path_parse env (str (filename f))))
               (Buffer_from_binary (content f)) (length (Buffer_from_binary (content f)))
               [(''Content-Type'', mimeType f),
                (''x-amz-meta-original-filename'', str (filename f)),
                (''x-amz-acl'', ''public-read'')]]"
      by blast
  qed
  have rm: ?rm
  proof (intro impI, elim conjE)
    assume h: "\<not> falsy (opt_fileKey d)"
      "removeObject (client svc) (bucket svc) (str (opt_fileKey d)) (store w) = (rr, sr)"
    have one: "delete svc (One d) w = delete svc (Many [d]) w"
      by (simp add: delete_def as_array_def)
    have nil: "\<And>v. delete svc (Many []) v = (Resolved (), v)"
      by (simp add: delete_def as_array_def)
    show "delete svc (Many (d # fs)) w =
            delete svc (Many fs)
              (w\<lparr>store := sr,
                 calls := calls w @ [RemoveObject (bucket svc) (str (opt_fileKey d))],
                 logs := logs w @
                   [case rr of
                      Inr _ \<Rightarrow> (Info, ''Successfully deleted file '' @ str (opt_fileKey d)
                                       @ '' from MinIO bucket '' @ bucket svc)
                    | Inl e \<Rightarrow> (Warn, ''Failed to delete file '' @ str (opt_fileKey d)
                                       @ '': '' @ message e)]\<rparr>)
        \<and> store (snd (delete svc (One d) w)) = sr
        \<and> new_calls w (snd (delete svc (One d) w)) =
            [RemoveObject (bucket svc) (str (opt_fileKey d))]"
      using delete_step [OF h, of fs] delete_step [OF h, of "[]"] one nil
      by (simp add: new_calls_def)
  qed
  have dl: ?dl
    using getPresignedDownloadUrl_outcome [of fd svc w rd sd]
    by (cases rd) (simp_all add: new_calls_def)
  have ul: ?ul
    using getPresignedUploadUrl_outcome [of pu svc w ru su]
    by (cases ru) (simp_all add: new_calls_def)
  have rd: ?rd
    using getAsBuffer_outcome [of fd svc w rg sg] getDownloadStream_outcome [of fd svc w rg sg]
      getAsBuffer_calls [of svc fd w]
    by (cases rg) (simp_all add: new_calls_def)
  have b1: ?b1 using upload_calls [of env svc dto w] by auto
  have b2: ?b2 using delete_calls [of svc fileData w] by auto
  have b3: ?b3 using getPresignedDownloadUrl_calls [of svc fd w] by auto
  have b4: ?b4 using getPresignedUploadUrl_calls [of svc pu w] by auto
  have b5: ?b5 using getAsBuffer_calls [of svc fd w] by auto
  have b6: ?b6 using getDownloadStream_calls [of svc fd w] by auto
  from ctor up rm dl ul rd b1 b2 b3 b4 b5 b6 show ?thesis by blast
qed


theorem bucket_fixed_at_construction_witness:
  "fst (constructor test_env (test_options\<lparr>cfg_bucket := Some ''shop''\<rparr>) empty_world) =
     Inr (\<lparr>config0 = test_options\<lparr>cfg_bucket := Some ''shop''\<rparr>, client = mem_Client,
           bucket = ''shop'', publicEndpoint = ''https://minio.test:9000''\<rparr>,
          AwaitBucketExists (Inr False)) \<and>
   cfg_bucket (test_options\<lparr>cfg_bucket := Some ''shop''\<rparr>) = Some ''shop'' \<and>
   fst (constructor test_env test_options empty_world) =
     Inr (test_service mem_Client, AwaitBucketExists (Inr False)) \<and>
   cfg_bucket test_options = None \<and>
   bucket (test_service mem_Client) = ''medusa-media'' \<and>
   ulid test_env (store empty_world) = (''01ARZ3NDEKTSV4RRFFQ69G5FAV'', []) \<and>
   putObject (client (test_service mem_Client)) (bucket (test_service mem_Client))
     ''photo-01ARZ3NDEKTSV4RRFFQ69G5FAV.png'' [1, 2] 2
     [(''Content-Type'', ''image/png''), (''x-amz-meta-original-filename'', ''photo.png''),
      (''x-amz-acl'', ''public-read'')] [] =
     (Inr (), [((''medusa-media'', ''photo-01ARZ3NDEKTSV4RRFFQ69G5FAV.png''), [1, 2])]) \<and>
   store (snd (upload test_env (test_service mem_Client)
        (Some \<lparr>filename = Some ''photo.png'', mimeType = ''image/png'', content = [1, 258]\<rparr>)
        empty_world)) =
     [((''medusa-media'', ''photo-01ARZ3NDEKTSV4RRFFQ69G5FAV.png''), [1, 2])] \<and>
   new_calls empty_world
     (snd (upload test_env (test_service mem_Client)
        (Some \<lparr>filename = Some ''photo.png'', mimeType = ''image/png'', content = [1, 258]\<rparr>)
        empty_world)) =
     [PutObject ''medusa-media'' ''photo-01ARZ3NDEKTSV4RRFFQ69G5FAV.png'' [1, 2] 2
        [(''Content-Type'', ''image/png''), (''x-amz-meta-original-filename'', ''photo.png''),
         (''x-amz-acl'', ''public-read'')]] \<and>
   removeObject (client (test_service mem_Client)) (bucket (test_service mem_Client)) ''a''
     (store stocked_world) = (Inr (), []) \<and>
   store (snd (delete (test_service mem_Client) (One (Some \<lparr>fileKey = Some ''a''\<rparr>))
        stocked_world)) = [] \<and>
   new_calls stocked_world
     (snd (delete (test_service mem_Client) (One (Some \<lparr>fileKey = Some ''a''\<rparr>)) stocked_world))
     = [RemoveObject ''medusa-media'' ''a''] \<and>
   presignedGetObject (client (test_service mem_Client)) (bucket (test_service mem_Client))
     ''a'' 86400 (store stocked_world) =
     (Inr ''https://minio.test/medusa-media/a?expires=24h'', store stocked_world) \<and>
   fst (getPresignedDownloadUrl (test_service mem_Client) (Some \<lparr>fileKey = Some ''a''\<rparr>)
        stocked_world) = Resolved ''https://minio.test/medusa-media/a?expires=24h'' \<and>
   presignedPutObject (client (test_service mem_Client)) (bucket (test_service mem_Client))
     ''n'' 900 (store stocked_world) =
     (Inr ''https://minio.test/medusa-media/n?expires=15m'', store stocked_world) \<and>
   fst (getPresignedUploadUrl (test_service mem_Client) (Some \<lparr>filename = Some ''n''\<rparr>)
        stocked_world) =
     Resolved \<lparr>url = ''https://minio.test/medusa-media/n?expires=15m'', key = ''n''\<rparr> \<and>
   getObject (client (test_service mem_Client)) (bucket (test_service mem_Client)) ''a''
     (store stocked_world) = (Inr [Data [1], Data [2], Data [3], End], store stocked_world) \<and>
   fst (getAsBuffer (test_service mem_Client) (Some \<lparr>fileKey = Some ''a''\<rparr>) stocked_world)
     = Resolved [1, 2, 3] \<and>
   fst (getDownloadStream (test_service mem_Client) (Some \<lparr>fileKey = Some ''a''\<rparr>)
        stocked_world) = Resolved [Data [1], Data [2], Data [3], End] \<and>
   new_calls stocked_world
     (snd (getDownloadStream (test_service mem_Client) (Some \<lparr>fileKey = Some ''a''\<rparr>)
        stocked_world)) = [GetObject ''medusa-media'' ''a'']"
proof -
  have shop: "fst (constructor test_env (test_options\<lparr>cfg_bucket := Some ''shop''\<rparr>) empty_world) =
     Inr (\<lparr>config0 = test_options\<lparr>cfg_bucket := Some ''shop''\<rparr>, client = mem_Client,
           bucket = ''shop'', publicEndpoint = ''https://minio.test:9000''\<rparr>,
          AwaitBucketExists (Inr False))"
    by (simp add: constructor_def parseEndpoint_def initializeBucket_start_def startsWith_def
        or_default_def test_env_def test_options_def empty_world_def mem_Client_def
        invoke_def logger_def Let_def)
  have dflt: "fst (constructor test_env test_options empty_world) =
     Inr (test_service mem_Client, AwaitBucketExists (Inr False))"
    by (simp add: constructor_def parseEndpoint_def initializeBucket_start_def startsWith_def
        or_default_def test_env_def test_options_def empty_world_def mem_Client_def
        invoke_def logger_def Let_def test_service_def DEFAULT_BUCKET_def)
  have answers:
    "ulid test_env (store empty_world) = (''01ARZ3NDEKTSV4RRFFQ69G5FAV'', [])"
    "putObject (client (test_service mem_Client)) (bucket (test_service mem_Client))
       ''photo-01ARZ3NDEKTSV4RRFFQ69G5FAV.png'' [1, 2] 2
       [(''Content-Type'', ''image/png''), (''x-amz-meta-original-filename'', ''photo.png''),
        (''x-amz-acl'', ''public-read'')] [] =
       (Inr (), [((''medusa-media'', ''photo-01ARZ3NDEKTSV4RRFFQ69G5FAV.png''), [1, 2])])"
    "removeObject (client (test_service mem_Client)) (bucket (test_service mem_Client)) ''a''
       (store stocked_world) = (Inr (), [])"
    "presignedGetObject (client (test_service mem_Client)) (bucket (test_service mem_Client))
       ''a'' 86400 (store stocked_world) =
       (Inr ''https://minio.test/medusa-media/a?expires=24h'', store stocked_world)"
    "presignedPutObject (client (test_service mem_Client)) (bucket (test_service mem_Client))
       ''n'' 900 (store stocked_world) =
       (Inr ''https://minio.test/medusa-media/n?expires=15m'', store stocked_world)"
    "getObject (client (test_service mem_Client)) (bucket (test_service mem_Client)) ''a''
       (store stocked_world) = (Inr [Data [1], Data [2], Data [3], End], store stocked_world)"
    by (simp_all add: test_env_def test_service_def mem_Client_def empty_world_def
        stocked_world_def expiry_suffix_def)
  have inputs:
    "\<not> falsy (filename \<lparr>filename = Some ''photo.png'', mimeType = ''image/png'',
                          content = [1, 258]\<rparr>)"
    "str (filename \<lparr>filename = Some ''photo.png'', mimeType = ''image/png'',
                    content = [1, 258]\<rparr>) = ''photo.png''"
    "name (path_parse test_env ''photo.png'') = ''photo''"
    "ext (path_parse test_env ''photo.png'') = ''.png''"
    "Buffer_from_binary [1, 258] = [1, 2]"
    "\<not> falsy (opt_fileKey (Some \<lparr>fileKey = Some ''a''\<rparr>))"
    "str (opt_fileKey (Some \<lparr>fileKey = Some ''a''\<rparr>)) = ''a''"
    "\<not> falsy (opt_filename (Some \<lparr>filename = Some ''n''\<rparr>))"
    "str (opt_filename (Some \<lparr>filename = Some ''n''\<rparr>)) = ''n''"
    "bucket (test_service mem_Client) = ''medusa-media''"
    "cfg_bucket (test_options\<lparr>cfg_bucket := Some ''shop''\<rparr>) = Some ''shop''"
    "cfg_bucket test_options = None"
    "collect [Data [1], Data [2], Data [3], End] [] = Some (Inr [1, 2, 3])"
    by (simp_all add: falsy_def str_def opt_fileKey_def opt_filename_def test_env_def
        Buffer_from_binary_def test_service_def test_options_def Buffer_concat_def)
  have up:
    "store (snd (upload test_env (test_service mem_Client)
        (Some \<lparr>filename = Some ''photo.png'', mimeType = ''image/png'', content = [1, 258]\<rparr>)
        empty_world)) =
     [((''medusa-media'', ''photo-01ARZ3NDEKTSV4RRFFQ69G5FAV.png''), [1, 2])]"
    "new_calls empty_world
     (snd (upload test_env (test_service mem_Client)
        (Some \<lparr>filename = Some ''photo.png'', mimeType = ''image/png'', content = [1, 258]\<rparr>)
        empty_world)) =
     [PutObject ''medusa-media'' ''photo-01ARZ3NDEKTSV4RRFFQ69G5FAV.png'' [1, 2] 2
        [(''Content-Type'', ''image/png''), (''x-amz-meta-original-filename'', ''photo.png''),
         (''x-amz-acl'', ''public-read'')]]"
    by (simp_all add: upload_def falsy_def str_def test_env_def test_service_def mem_Client_def
        empty_world_def invoke_def logger_def Let_def Buffer_from_binary_def new_calls_def)
  show ?thesis
    using shop dflt answers inputs up
      bucket_fixed_at_construction
        [where env = test_env and options = "test_options\<lparr>cfg_bucket := Some ''shop''\<rparr>"
           and w = empty_world
           and svc' = "\<lparr>config0 = test_options\<lparr>cfg_bucket := Some ''shop''\<rparr>,
                          client = mem_Client, bucket = ''shop'',
                          publicEndpoint = ''https://minio.test:9000''\<rparr>"
           and task = "AwaitBucketExists (Inr False)"
           and svc = "test_service mem_Client"
           and dto = "Some \<lparr>filename = Some ''photo.png'', mimeType = ''image/png'',
                               content = [1, 258]\<rparr>"
           and f = "\<lparr>filename = Some ''photo.png'', mimeType = ''image/png'',
                        content = [1, 258]\<rparr>"
           and u = "''01ARZ3NDEKTSV4RRFFQ69G5FAV''" and sa = "[]" and rp = "Inr ()"
           and sb = "[((''medusa-media'', ''photo-01ARZ3NDEKTSV4RRFFQ69G5FAV.png''), [1, 2])]"]
      bucket_fixed_at_construction
        [where env = test_env and options = test_options and w = stocked_world
           and svc = "test_service mem_Client"
           and d = "Some \<lparr>fileKey = Some ''a''\<rparr>" and rr = "Inr ()" and sr = "[]"
           and fs = "[]"
           and fd = "Some \<lparr>fileKey = Some ''a''\<rparr>"
           and rd = "Inr ''https://minio.test/medusa-media/a?expires=24h''"
           and sd = "store stocked_world"
           and pu = "Some \<lparr>filename = Some ''n''\<rparr>"
           and ru = "Inr ''https://minio.test/medusa-media/n?expires=15m''"
           and su = "store stocked_world"
           and rg = "Inr [Data [1], Data [2], Data [3], End]"
           and sg = "store stocked_world"]
    by simp
qed

text \<open>
  Claim C6, as stated, fails: the adapter does create the bucket and set its policy. The
  constructor starts \<open>initializeBucket\<close>, which has sent \<open>bucketExists\<close> when the
  constructor returns; run on a store without the bucket, \<open>initializeBucket\<close> leaves a
  store that holds the bucket with the public-read policy.
\<close>

theorem initializeBucket_creates_bucket:
  "fst (constructor bucket_env test_options no_buckets) =
     Inr (bucket_service, AwaitBucketExists (Inr False)) \<and>
   calls (snd (constructor bucket_env test_options no_buckets)) =
     [BucketExists ''medusa-media''] \<and>
   initializeBucket bucket_env bucket_service no_buckets =
     (Resolved (),
      \<lparr>store =
         [(''medusa-media'',
           ''{Version:2012-10-17,Statement:[{Sid:PublicRead,Effect:Allow,Principal:*,Action:[s3:GetObject],Resource:[arn:aws:s3:::medusa-media/*]}]}'')],
       calls =
         [BucketExists ''medusa-media'', MakeBucket ''medusa-media'',
          SetBucketPolicy ''medusa-media''
            ''{Version:2012-10-17,Statement:[{Sid:PublicRead,Effect:Allow,Principal:*,Action:[s3:GetObject],Resource:[arn:aws:s3:::medusa-media/*]}]}''],
       logs =
         [(Info, ''Created bucket: medusa-media''),
          (Info, ''Set public read policy for bucket: medusa-media'')]\<rparr>)"
  by (simp add: constructor_def parseEndpoint_def initializeBucket_start_def
      initializeBucket_def public_read_policy_def startsWith_def or_default_def
      bucket_env_def bucket_service_def bucket_Client_def test_options_def no_buckets_def
      invoke_def logger_def Let_def DEFAULT_BUCKET_def)

text \<open>
  Claim C6, amended. The adapter bootstraps the bucket itself. The constructor starts
  \<open>initializeBucket\<close> without awaiting it, so it returns with \<open>bucketExists\<close> sent
  and the rest pending. \<open>initializeBucket\<close>, which is that start followed by its
  resumptions, calls \<open>makeBucket\<close> when the bucket is reported missing and then
  \<open>setBucketPolicy\<close> with the public-read policy (version \<open>2012-10-17\<close>, one
  statement allowing \<open>s3:GetObject\<close> to everyone on every object of the bucket); on an
  existing bucket it sets the same policy and swallows a failure to do so. The outside
  state it leaves is the one these client calls produce. The file operations never call
  \<open>bucketExists\<close>, \<open>makeBucket\<close> or \<open>setBucketPolicy\<close>: replacing these three
  methods of the client changes nothing in what an operation does, so whether the bucket
  exists when an object is written is left to the client.
\<close>

theorem bucket_bootstrap:
  "(fst (constructor env options w) = Inr (svc', task) \<longrightarrow>
      task = AwaitBucketExists (fst (bucketExists (client svc') (bucket svc') (store w)))
      \<and> store (snd (constructor env options w)) =
          snd (bucketExists (client svc') (bucket svc') (store w))
      \<and> new_calls w (snd (constructor env options w)) = [BucketExists (bucket svc')])
   \<and> initializeBucket env svc w =
       (case initializeBucket_start svc w of (ta, wa) \<Rightarrow>
        case initializeBucket_resume env svc ta wa of (tb, wb) \<Rightarrow>
        case initializeBucket_resume env svc tb wb of (tc, wc) \<Rightarrow>
        case initializeBucket_resume env svc tc wc of (td, wd) \<Rightarrow>
          (case td of Settled p \<Rightarrow> p | _ \<Rightarrow> Pending, wd))
   \<and> (policy = JSON_stringify env
         (JObject [(''Version'', JString ''2012-10-17''),
                   (''Statement'', JArray [JObject
                      [(''Sid'', JString ''PublicRead''),
                       (''Effect'', JString ''Allow''),
                       (''Principal'', JString ''*''),
                       (''Action'', JArray [JString ''s3:GetObject'']),
                       (''Resource'',
                        JArray [JString (''arn:aws:s3:::'' @ bucket svc @ ''/*'')])]])]) \<and>
       bucketExists (client svc) (bucket svc) (store w) = (Inr False, sa) \<and>
       makeBucket (client svc) (bucket svc) sa = (Inr (), sb) \<and>
       setBucketPolicy (client svc) (bucket svc) policy sb = (rn, sc)
      \<longrightarrow> initializeBucket env svc w =
            (case rn of Inr _ \<Rightarrow> Resolved () | Inl e \<Rightarrow> Rejected (Raw e),
             w\<lparr>store := sc,
               calls := calls w @
                 [BucketExists (bucket svc), MakeBucket (bucket svc),
                  SetBucketPolicy (bucket svc) policy],
               logs := logs w @
                 [(Info, ''Created bucket: '' @ bucket svc),
                  case rn of
                    Inr _ \<Rightarrow> (Info, ''Set public read policy for bucket: '' @ bucket svc)
                  | Inl e \<Rightarrow> (Err, ''Error initializing bucket: '' @ message e)]\<rparr>))
   \<and> (policy = JSON_stringify env
         (JObject [(''Version'', JString ''2012-10-17''),
                   (''Statement'', JArray [JObject
                      [(''Sid'', JString ''PublicRead''),
                       (''Effect'', JString ''Allow''),
                       (''Principal'', JString ''*''),
                       (''Action'', JArray [JString ''s3:GetObject'']),
                       (''Resource'',
                        JArray [JString (''arn:aws:s3:::'' @ bucket svc @ ''/*'')])]])]) \<and>
       bucketExists (client svc) (bucket svc) (store w) = (Inr True, sa) \<and>
       setBucketPolicy (client svc) (bucket svc) policy sa = (rx, sc)
      \<longrightarrow> initializeBucket env svc w =
            (Resolved (),
             w\<lparr>store := sc,
               calls := calls w @
                 [BucketExists (bucket svc), SetBucketPolicy (bucket svc) policy],
               logs := logs w @
                 [(Info, ''Using existing bucket: '' @ bucket svc),
                  case rx of
                    Inr _ \<Rightarrow> (Info, ''Updated public read policy for existing bucket: ''
                                     @ bucket svc)
                  | Inl e \<Rightarrow> (Warn, ''Failed to update policy for existing bucket: ''
                                     @ message e)]\<rparr>))
   \<and> upload env (svc\<lparr>client := (client svc)\<lparr>bucketExists := be, makeBucket := mb,
                                               setBucketPolicy := sp\<rparr>\<rparr>) dto w
       = upload env svc dto w
   \<and> delete (svc\<lparr>client := (client svc)\<lparr>bucketExists := be, makeBucket := mb,
                                           setBucketPolicy := sp\<rparr>\<rparr>) fileData w
       = delete svc fileData w
   \<and> getPresignedDownloadUrl
        (svc\<lparr>client := (client svc)\<lparr>bucketExists := be, makeBucket := mb,
                                       setBucketPolicy := sp\<rparr>\<rparr>) fd w
       = getPresignedDownloadUrl svc fd w
   \<and> getPresignedUploadUrl
        (svc\<lparr>client := (client svc)\<lparr>bucketExists := be, makeBucket := mb,
                                       setBucketPolicy := sp\<rparr>\<rparr>) pu w
       = getPresignedUploadUrl svc pu w
   \<and> getAsBuffer (svc\<lparr>client := (client svc)\<lparr>bucketExists := be, makeBucket := mb,
                                                setBucketPolicy := sp\<rparr>\<rparr>) fd w
       = getAsBuffer svc fd w
   \<and> getDownloadStream
        (svc\<lparr>client := (client svc)\<lparr>bucketExists := be, makeBucket := mb,
                                       setBucketPolicy := sp\<rparr>\<rparr>) fd w
       = getDownloadStream svc fd w
   \<and> (\<forall>c\<in>set (new_calls w (snd (upload env svc dto w))). \<not> bucket_level c)
   \<and> (\<forall>c\<in>set (new_calls w (snd (delete svc fileData w))). \<not> bucket_level c)
   \<and> (\<forall>c\<in>set (new_calls w (snd (getPresignedDownloadUrl svc fd w))). \<not> bucket_level c)
   \<and> (\<forall>c\<in>set (new_calls w (snd (getPresignedUploadUrl svc pu w))). \<not> bucket_level c)
   \<and> (\<forall>c\<in>set (new_calls w (snd (getAsBuffer svc fd w))). \<not> bucket_level c)
   \<and> (\<forall>c\<in>set (new_calls w (snd (getDownloadStream svc fd w))). \<not> bucket_level c)"
  (is "?ctor \<and> ?pieces \<and> ?missing \<and> ?existing \<and> ?n1 \<and> ?n2 \<and> ?n3 \<and> ?n4 \<and> ?n5 \<and> ?n6
       \<and> ?b1 \<and> ?b2 \<and> ?b3 \<and> ?b4 \<and> ?b5 \<and> ?b6")
proof -
  have ctor: ?ctor
    using constructor_starts [of env options w svc' task] by (simp add: new_calls_def)
  have pieces: ?pieces by (rule initializeBucket_in_pieces)
  have missing: ?missing
  proof (intro impI, elim conjE)
    assume p: "policy = JSON_stringify env
         (JObject [(''Version'', JString ''2012-10-17''),
                   (''Statement'', JArray [JObject
                      [(''Sid'', JString ''PublicRead''),
                       (''Effect'', JString ''Allow''),
                       (''Principal'', JString ''*''),
                       (''Action'', JArray [JString ''s3:GetObject'']),
                       (''Resource'',
                        JArray [JString (''arn:aws:s3:::'' @ bucket svc @ ''/*'')])]])])"
      and be: "bucketExists (client svc) (bucket svc) (store w) = (Inr False, sa)"
      and mb: "makeBucket (client svc) (bucket svc) sa = (Inr (), sb)"
      and sp: "setBucketPolicy (client svc) (bucket svc) policy sb = (rn, sc)"
    have pol: "policy = JSON_stringify env (public_read_policy (bucket svc))"
      unfolding p public_read_policy_def ..
    show "initializeBucket env svc w =
            (case rn of Inr _ \<Rightarrow> Resolved () | Inl e \<Rightarrow> Rejected (Raw e),
             w\<lparr>store := sc,
               calls := calls w @
                 [BucketExists (bucket svc), MakeBucket (bucket svc),
                  SetBucketPolicy (bucket svc) policy],
               logs := logs w @
                 [(Info, ''Created bucket: '' @ bucket svc),
                  case rn of
                    Inr _ \<Rightarrow> (Info, ''Set public read policy for bucket: '' @ bucket svc)
                  | Inl e \<Rightarrow> (Err, ''Error initializing bucket: '' @ message e)]\<rparr>)"
      unfolding pol by (rule initializeBucket_missing [OF be mb sp [unfolded pol]])
  qed
  have existing: ?existing
  proof (intro impI, elim conjE)
    assume p: "policy = JSON_stringify env
         (JObject [(''Version'', JString ''2012-10-17''),
                   (''Statement'', JArray [JObject
                      [(''Sid'', JString ''PublicRead''),
                       (''Effect'', JString ''Allow''),
                       (''Principal'', JString ''*''),
                       (''Action'', JArray [JString ''s3:GetObject'']),
                       (''Resource'',
                        JArray [JString (''arn:aws:s3:::'' @ bucket svc @ ''/*'')])]])])"
      and be: "bucketExists (client svc) (bucket svc) (store w) = (Inr True, sa)"
      and sp: "setBucketPolicy (client svc) (bucket svc) policy sa = (rx, sc)"
    have pol: "policy = JSON_stringify env (public_read_policy (bucket svc))"
      unfolding p public_read_policy_def ..
    show "initializeBucket env svc w =
            (Resolved (),
             w\<lparr>store := sc,
               calls := calls w @
                 [BucketExists (bucket svc), SetBucketPolicy (bucket svc) policy],
               logs := logs w @
                 [(Info, ''Using existing bucket: '' @ bucket svc),
                  case rx of
                    Inr _ \<Rightarrow> (Info, ''Updated public read policy for existing bucket: ''
                                     @ bucket svc)
                  | Inl e \<Rightarrow> (Warn, ''Failed to update policy for existing bucket: ''
                                     @ message e)]\<rparr>)"
      unfolding pol by (rule initializeBucket_existing [OF be sp [unfolded pol]])
  qed
  have n1: ?n1
    by (simp add: upload_def Let_def invoke_def split: option.splits prod.splits sum.splits)
  have n2: ?n2 by (simp add: delete_def delete_loop_ignores_bucket_methods)
  have n3: ?n3
    by (simp add: getPresignedDownloadUrl_def Let_def invoke_def split: prod.splits sum.splits)
  have n4: ?n4
    by (simp add: getPresignedUploadUrl_def Let_def invoke_def split: prod.splits sum.splits)
  have n5: ?n5
    by (simp add: getAsBuffer_def Let_def invoke_def
        split: prod.splits sum.splits option.splits)
  have n6: ?n6
    by (simp add: getDownloadStream_def Let_def invoke_def split: prod.splits sum.splits)
  have b1: ?b1 using upload_calls [of env svc dto w] by auto
  have b2: ?b2 using delete_calls [of svc fileData w] by auto
  have b3: ?b3 using getPresignedDownloadUrl_calls [of svc fd w] by auto
  have b4: ?b4 using getPresignedUploadUrl_calls [of svc pu w] by auto
  have b5: ?b5 using getAsBuffer_calls [of svc fd w] by auto
  have b6: ?b6 using getDownloadStream_calls [of svc fd w] by auto
  from ctor pieces missing existing n1 n2 n3 n4 n5 n6 b1 b2 b3 b4 b5 b6
  show ?thesis by blast
qed


theorem bucket_bootstrap_witness:
  "fst (constructor bucket_env test_options no_buckets) =
     Inr (bucket_service, AwaitBucketExists (Inr False)) \<and>
   new_calls no_buckets (snd (constructor bucket_env test_options no_buckets)) =
     [BucketExists ''medusa-media''] \<and>
   JSON_stringify bucket_env
     (JObject [(''Version'', JString ''2012-10-17''),
               (''Statement'', JArray [JObject
                  [(''Sid'', JString ''PublicRead''),
                   (''Effect'', JString ''Allow''),
                   (''Principal'', JString ''*''),
                   (''Action'', JArray [JString ''s3:GetObject'']),
                   (''Resource'',
                    JArray [JString (''arn:aws:s3:::'' @ bucket bucket_service @ ''/*'')])]])]) =
     ''{Version:2012-10-17,Statement:[{Sid:PublicRead,Effect:Allow,Principal:*,Action:[s3:GetObject],Resource:[arn:aws:s3:::medusa-media/*]}]}'' \<and>
   bucketExists (client bucket_service) (bucket bucket_service) (store no_buckets) =
     (Inr False, []) \<and>
   makeBucket (client bucket_service) (bucket bucket_service) [] =
     (Inr (), [(''medusa-media'', [])]) \<and>
   setBucketPolicy (client bucket_service) (bucket bucket_service)
     ''{Version:2012-10-17,Statement:[{Sid:PublicRead,Effect:Allow,Principal:*,Action:[s3:GetObject],Resource:[arn:aws:s3:::medusa-media/*]}]}''
     [(''medusa-media'', [])] =
     (Inr (), [(''medusa-media'', ''{Version:2012-10-17,Statement:[{Sid:PublicRead,Effect:Allow,Principal:*,Action:[s3:GetObject],Resource:[arn:aws:s3:::medusa-media/*]}]}'')]) \<and>
   initializeBucket bucket_env bucket_service no_buckets =
     (Resolved (),
      \<lparr>store = [(''medusa-media'', ''{Version:2012-10-17,Statement:[{Sid:PublicRead,Effect:Allow,Principal:*,Action:[s3:GetObject],Resource:[arn:aws:s3:::medusa-media/*]}]}'')],
       calls =
         [BucketExists ''medusa-media'', MakeBucket ''medusa-media'',
          SetBucketPolicy ''medusa-media'' ''{Version:2012-10-17,Statement:[{Sid:PublicRead,Effect:Allow,Principal:*,Action:[s3:GetObject],Resource:[arn:aws:s3:::medusa-media/*]}]}''],
       logs =
         [(Info, ''Created bucket: medusa-media''),
          (Info, ''Set public read policy for bucket: medusa-media'')]\<rparr>) \<and>
   bucketExists (client bucket_service) (bucket bucket_service) (store one_bucket) =
     (Inr True, [(''medusa-media'', [])]) \<and>
   initializeBucket bucket_env bucket_service one_bucket =
     (Resolved (),
      \<lparr>store = [(''medusa-media'', ''{Version:2012-10-17,Statement:[{Sid:PublicRead,Effect:Allow,Principal:*,Action:[s3:GetObject],Resource:[arn:aws:s3:::medusa-media/*]}]}'')],
       calls =
         [BucketExists ''medusa-media'',
          SetBucketPolicy ''medusa-media'' ''{Version:2012-10-17,Statement:[{Sid:PublicRead,Effect:Allow,Principal:*,Action:[s3:GetObject],Resource:[arn:aws:s3:::medusa-media/*]}]}''],
       logs =
         [(Info, ''Using existing bucket: medusa-media''),
          (Info, ''Updated public read policy for existing bucket: medusa-media'')]\<rparr>) \<and>
   new_calls empty_world
     (snd (upload test_env (test_service mem_Client)
        (Some \<lparr>filename = Some ''photo.png'', mimeType = ''image/png'', content = [1, 258]\<rparr>)
        empty_world)) =
     [PutObject ''medusa-media'' ''photo-01ARZ3NDEKTSV4RRFFQ69G5FAV.png'' [1, 2] 2
        [(''Content-Type'', ''image/png''), (''x-amz-meta-original-filename'', ''photo.png''),
         (''x-amz-acl'', ''public-read'')]] \<and>
   new_calls empty_world
     (snd (delete (test_service mem_Client) (One (Some \<lparr>fileKey = Some ''a''\<rparr>)) empty_world))
     = [RemoveObject ''medusa-media'' ''a''] \<and>
   new_calls empty_world
     (snd (getPresignedDownloadUrl (test_service mem_Client) (Some \<lparr>fileKey = Some ''a''\<rparr>)
        empty_world)) = [PresignedGetObject ''medusa-media'' ''a'' 86400] \<and>
   new_calls empty_world
     (snd (getPresignedUploadUrl (test_service mem_Client) (Some \<lparr>filename = Some ''n''\<rparr>)
        empty_world)) = [PresignedPutObject ''medusa-media'' ''n'' 900] \<and>
   new_calls empty_world
     (snd (getAsBuffer (test_service mem_Client) (Some \<lparr>fileKey = Some ''a''\<rparr>) empty_world))
     = [GetObject ''medusa-media'' ''a''] \<and>
   new_calls empty_world
     (snd (getDownloadStream (test_service mem_Client) (Some \<lparr>fileKey = Some ''a''\<rparr>)
        empty_world)) = [GetObject ''medusa-media'' ''a'']"
proof -
  have ctor: "fst (constructor bucket_env test_options no_buckets) =
       Inr (bucket_service, AwaitBucketExists (Inr False))"
    by (simp add: constructor_def parseEndpoint_def initializeBucket_start_def startsWith_def
        or_default_def bucket_env_def bucket_service_def bucket_Client_def test_options_def
        no_buckets_def invoke_def logger_def Let_def DEFAULT_BUCKET_def)
  have ctor_calls: "new_calls no_buckets (snd (constructor bucket_env test_options no_buckets)) =
       [BucketExists ''medusa-media'']"
    by (simp add: constructor_def parseEndpoint_def initializeBucket_start_def startsWith_def
        or_default_def bucket_env_def bucket_service_def bucket_Client_def test_options_def
        no_buckets_def invoke_def logger_def Let_def DEFAULT_BUCKET_def new_calls_def)
  have pol: "JSON_stringify bucket_env
       (JObject [(''Version'', JString ''2012-10-17''),
                 (''Statement'', JArray [JObject
                    [(''Sid'', JString ''PublicRead''),
                     (''Effect'', JString ''Allow''),
                     (''Principal'', JString ''*''),
                     (''Action'', JArray [JString ''s3:GetObject'']),
                     (''Resource'',
                      JArray [JString (''arn:aws:s3:::'' @ bucket bucket_service @ ''/*'')])]])]) =
       ''{Version:2012-10-17,Statement:[{Sid:PublicRead,Effect:Allow,Principal:*,Action:[s3:GetObject],Resource:[arn:aws:s3:::medusa-media/*]}]}''"
    by (simp add: bucket_env_def bucket_service_def)
  have be_missing: "bucketExists (client bucket_service) (bucket bucket_service) (store no_buckets) =
       (Inr False, [])"
    by (simp add: bucket_service_def bucket_Client_def no_buckets_def)
  have mb: "makeBucket (client bucket_service) (bucket bucket_service) [] =
       (Inr (), [(''medusa-media'', [])])"
    by (simp add: bucket_service_def bucket_Client_def)
  have sp_new: "setBucketPolicy (client bucket_service) (bucket bucket_service)
       ''{Version:2012-10-17,Statement:[{Sid:PublicRead,Effect:Allow,Principal:*,Action:[s3:GetObject],Resource:[arn:aws:s3:::medusa-media/*]}]}''
       [(''medusa-media'', [])] =
       (Inr (), [(''medusa-media'', ''{Version:2012-10-17,Statement:[{Sid:PublicRead,Effect:Allow,Principal:*,Action:[s3:GetObject],Resource:[arn:aws:s3:::medusa-media/*]}]}'')])"
    by (simp add: bucket_service_def bucket_Client_def)
  have run_missing: "initializeBucket bucket_env bucket_service no_buckets =
       (Resolved (),
        \<lparr>store = [(''medusa-media'', ''{Version:2012-10-17,Statement:[{Sid:PublicRead,Effect:Allow,Principal:*,Action:[s3:GetObject],Resource:[arn:aws:s3:::medusa-media/*]}]}'')],
         calls =
           [BucketExists ''medusa-media'', MakeBucket ''medusa-media'',
            SetBucketPolicy ''medusa-media'' ''{Version:2012-10-17,Statement:[{Sid:PublicRead,Effect:Allow,Principal:*,Action:[s3:GetObject],Resource:[arn:aws:s3:::medusa-media/*]}]}''],
         logs =
           [(Info, ''Created bucket: medusa-media''),
            (Info, ''Set public read policy for bucket: medusa-media'')]\<rparr>)"
    by (simp add: initializeBucket_def public_read_policy_def bucket_env_def
        bucket_service_def bucket_Client_def no_buckets_def invoke_def logger_def Let_def)
  have be_existing: "bucketExists (client bucket_service) (bucket bucket_service) (store one_bucket) =
       (Inr True, [(''medusa-media'', [])])"
    by (simp add: bucket_service_def bucket_Client_def one_bucket_def)
  have run_existing: "initializeBucket bucket_env bucket_service one_bucket =
       (Resolved (),
        \<lparr>store = [(''medusa-media'', ''{Version:2012-10-17,Statement:[{Sid:PublicRead,Effect:Allow,Principal:*,Action:[s3:GetObject],Resource:[arn:aws:s3:::medusa-media/*]}]}'')],
         calls =
           [BucketExists ''medusa-media'',
            SetBucketPolicy ''medusa-media'' ''{Version:2012-10-17,Statement:[{Sid:PublicRead,Effect:Allow,Principal:*,Action:[s3:GetObject],Resource:[arn:aws:s3:::medusa-media/*]}]}''],
         logs =
           [(Info, ''Using existing bucket: medusa-media''),
            (Info, ''Updated public read policy for existing bucket: medusa-media'')]\<rparr>)"
    by (simp add: initializeBucket_def public_read_policy_def bucket_env_def
        bucket_service_def bucket_Client_def one_bucket_def invoke_def logger_def Let_def)
  have op_up: "new_calls empty_world
       (snd (upload test_env (test_service mem_Client)
          (Some \<lparr>filename = Some ''photo.png'', mimeType = ''image/png'', content = [1, 258]\<rparr>)
          empty_world)) =
       [PutObject ''medusa-media'' ''photo-01ARZ3NDEKTSV4RRFFQ69G5FAV.png'' [1, 2] 2
          [(''Content-Type'', ''image/png''), (''x-amz-meta-original-filename'', ''photo.png''),
           (''x-amz-acl'', ''public-read'')]]"
    by (simp add: upload_def falsy_def str_def test_env_def test_service_def mem_Client_def
        empty_world_def invoke_def logger_def Let_def Buffer_from_binary_def new_calls_def)
  have op_rm: "new_calls empty_world
       (snd (delete (test_service mem_Client) (One (Some \<lparr>fileKey = Some ''a''\<rparr>)) empty_world))
       = [RemoveObject ''medusa-media'' ''a'']"
    by (simp add: delete_calls getPresignedDownloadUrl_calls getPresignedUploadUrl_calls
        getAsBuffer_calls getDownloadStream_calls as_array_def falsy_def opt_fileKey_def
        opt_filename_def str_def test_service_def)
  have op_dl: "new_calls empty_world
       (snd (getPresignedDownloadUrl (test_service mem_Client) (Some \<lparr>fileKey = Some ''a''\<rparr>)
          empty_world)) = [PresignedGetObject ''medusa-media'' ''a'' 86400]"
    by (simp add: delete_calls getPresignedDownloadUrl_calls getPresignedUploadUrl_calls
        getAsBuffer_calls getDownloadStream_calls as_array_def falsy_def opt_fileKey_def
        opt_filename_def str_def test_service_def)
  have op_ul: "new_calls empty_world
       (snd (getPresignedUploadUrl (test_service mem_Client) (Some \<lparr>filename = Some ''n''\<rparr>)
          empty_world)) = [PresignedPutObject ''medusa-media'' ''n'' 900]"
    by (simp add: delete_calls getPresignedDownloadUrl_calls getPresignedUploadUrl_calls
        getAsBuffer_calls getDownloadStream_calls as_array_def falsy_def opt_fileKey_def
        opt_filename_def str_def test_service_def)
  have op_buf: "new_calls empty_world
       (snd (getAsBuffer (test_service mem_Client) (Some \<lparr>fileKey = Some ''a''\<rparr>) empty_world))
       = [GetObject ''medusa-media'' ''a'']"
    by (simp add: delete_calls getPresignedDownloadUrl_calls getPresignedUploadUrl_calls
        getAsBuffer_calls getDownloadStream_calls as_array_def falsy_def opt_fileKey_def
        opt_filename_def str_def test_service_def)
  have op_st: "new_calls empty_world
       (snd (getDownloadStream (test_service mem_Client) (Some \<lparr>fileKey = Some ''a''\<rparr>)
          empty_world)) = [GetObject ''medusa-media'' ''a'']"
    by (simp add: delete_calls getPresignedDownloadUrl_calls getPresignedUploadUrl_calls
        getAsBuffer_calls getDownloadStream_calls as_array_def falsy_def opt_fileKey_def
        opt_filename_def str_def test_service_def)
  show ?thesis
    using ctor ctor_calls pol be_missing mb sp_new run_missing be_existing run_existing op_up op_rm op_dl op_ul op_buf op_st
      bucket_bootstrap
        [where env = bucket_env and options = test_options and w = no_buckets
           and svc' = bucket_service and task = "AwaitBucketExists (Inr False)"
           and svc = bucket_service
           and policy = "''{Version:2012-10-17,Statement:[{Sid:PublicRead,Effect:Allow,Principal:*,Action:[s3:GetObject],Resource:[arn:aws:s3:::medusa-media/*]}]}''"
           and sa = "[]" and sb = "[(''medusa-media'', [])]" and rn = "Inr ()"
           and sc = "[(''medusa-media'', ''{Version:2012-10-17,Statement:[{Sid:PublicRead,Effect:Allow,Principal:*,Action:[s3:GetObject],Resource:[arn:aws:s3:::medusa-media/*]}]}'')]"]
      bucket_bootstrap
        [where env = bucket_env and w = one_bucket and svc = bucket_service
           and policy = "''{Version:2012-10-17,Statement:[{Sid:PublicRead,Effect:Allow,Principal:*,Action:[s3:GetObject],Resource:[arn:aws:s3:::medusa-media/*]}]}''"
           and sa = "[(''medusa-media'', [])]" and rx = "Inr ()"
           and sc = "[(''medusa-media'', ''{Version:2012-10-17,Statement:[{Sid:PublicRead,Effect:Allow,Principal:*,Action:[s3:GetObject],Resource:[arn:aws:s3:::medusa-media/*]}]}'')]"]
      bucket_bootstrap
        [where env = test_env and w = empty_world and svc = "test_service mem_Client"
           and dto = "Some \<lparr>filename = Some ''photo.png'', mimeType = ''image/png'',
                               content = [1, 258]\<rparr>"
           and fileData = "One (Some \<lparr>fileKey = Some ''a''\<rparr>)"
           and fd = "Some \<lparr>fileKey = Some ''a''\<rparr>"
           and pu = "Some \<lparr>filename = Some ''n''\<rparr>"]
    by simp
qed

subsection \<open>The key and the URL of an upload\<close>

text \<open>
  Claim C9. When \<open>upload\<close> resolves, the file has a non-empty filename \<open>fname\<close>, the
  returned key is the \<open>name\<close> that \<open>path.parse\<close> gives for it, a hyphen, the value of the
  one \<open>ulid()\<close> call made on the current outside state, and the \<open>ext\<close> that
  \<open>path.parse\<close> gives; the returned URL is the public endpoint, the bucket and that key
  joined by slashes; and the object was put under that same key. For a filename without
  a directory part, which \<open>path.parse\<close> splits into \<open>name\<close> and \<open>ext\<close> with nothing
  left over, the key differs from the filename.
\<close>

theorem upload_key_and_url:
  "fst (upload env svc dto w) = Resolved r \<longrightarrow>
     (\<exists>f fname.
        dto = Some f \<and> filename f = Some fname \<and> fname \<noteq> [] \<and>
        key r = name (path_parse env fname) @ ''-'' @ fst (ulid env (store w))
                @ ext (path_parse env fname) \<and>
        url r = publicEndpoint svc @ ''/'' @ bucket svc @ ''/'' @ key r \<and>
        (\<exists>buf n meta. new_calls w (snd (upload env svc dto w)) =
                         [PutObject (bucket svc) (key r) buf n meta]) \<and>
        (name (path_parse env fname) @ ext (path_parse env fname) = fname
           \<longrightarrow> key r \<noteq> fname))"
proof
  assume res: "fst (upload env svc dto w) = Resolved r"
  then obtain f where dto: "dto = Some f"
    by (cases dto) (simp_all add: upload_def)
  from res dto have nf: "\<not> falsy (filename f)"
    by (auto simp: upload_def split: if_splits)
  then obtain fname where fname: "filename f = Some fname" "fname \<noteq> []"
    by (cases "filename f") (simp_all add: falsy_def)
  obtain u sa where ul: "ulid env (store w) = (u, sa)"
    by (cases "ulid env (store w)")
  let ?k = "name (path_parse env fname) @ ''-'' @ u @ ext (path_parse env fname)"
  from res dto nf fname ul have r: "r = \<lparr>url = publicEndpoint svc @ ''/'' @ bucket svc @ ''/'' @ ?k, key = ?k\<rparr>"
    by (auto simp: upload_def str_def Let_def split: prod.splits sum.splits)
  from res dto nf fname ul
  have c: "\<exists>buf n meta. calls (snd (upload env svc dto w)) =
      calls w @ [PutObject (bucket svc) ?k buf n meta]"
    by (auto simp: upload_def str_def Let_def invoke_def split: prod.splits sum.splits)
  from r have k: "key r = ?k" and u: "url r = publicEndpoint svc @ ''/'' @ bucket svc @ ''/'' @ key r"
    by simp_all
  have neq: "name (path_parse env fname) @ ext (path_parse env fname) = fname
           \<longrightarrow> key r \<noteq> fname"
  proof
    assume bare: "name (path_parse env fname) @ ext (path_parse env fname) = fname"
    have "length (name (path_parse env fname) @ ext (path_parse env fname)) < length ?k"
      by simp
    with bare have "length fname < length (key r)" unfolding k by simp
    then show "key r \<noteq> fname" by blast
  qed
  from c k obtain buf n meta where
    "new_calls w (snd (upload env svc dto w)) = [PutObject (bucket svc) (key r) buf n meta]"
    by auto
  with dto fname k u neq ul
  show "\<exists>f fname.
        dto = Some f \<and> filename f = Some fname \<and> fname \<noteq> [] \<and>
        key r = name (path_parse env fname) @ ''-'' @ fst (ulid env (store w))
                @ ext (path_parse env fname) \<and>
        url r = publicEndpoint svc @ ''/'' @ bucket svc @ ''/'' @ key r \<and>
        (\<exists>buf n meta. new_calls w (snd (upload env svc dto w)) =
                         [PutObject (bucket svc) (key r) buf n meta]) \<and>
        (name (path_parse env fname) @ ext (path_parse env fname) = fname
           \<longrightarrow> key r \<noteq> fname)"
    by (intro exI [of _ f] exI [of _ fname]) auto
qed

theorem upload_key_and_url_witness:
  "fst (upload test_env (test_service mem_Client)
          (Some \<lparr>filename = Some ''photo.png'', mimeType = ''image/png'', content = [1, 258]\<rparr>)
          empty_world) =
     Resolved \<lparr>url = ''https://minio.test:9000/medusa-media/photo-01ARZ3NDEKTSV4RRFFQ69G5FAV.png'',
               key = ''photo-01ARZ3NDEKTSV4RRFFQ69G5FAV.png''\<rparr> \<and>
   name (path_parse test_env ''photo.png'') = ''photo'' \<and>
   ext (path_parse test_env ''photo.png'') = ''.png'' \<and>
   fst (ulid test_env (store empty_world)) = ''01ARZ3NDEKTSV4RRFFQ69G5FAV'' \<and>
   name (path_parse test_env ''photo.png'') @ ext (path_parse test_env ''photo.png'')
     = ''photo.png'' \<and>
   ''photo-01ARZ3NDEKTSV4RRFFQ69G5FAV.png'' \<noteq> ''photo.png'' \<and>
   (\<exists>f fname.
      Some \<lparr>filename = Some ''photo.png'', mimeType = ''image/png'', content = [1, 258]\<rparr> = Some f \<and>
      filename f = Some fname \<and>
      key \<lparr>url = ''https://minio.test:9000/medusa-media/photo-01ARZ3NDEKTSV4RRFFQ69G5FAV.png'',
           key = ''photo-01ARZ3NDEKTSV4RRFFQ69G5FAV.png''\<rparr> =
        name (path_parse test_env fname) @ ''-'' @ fst (ulid test_env (store empty_world))
        @ ext (path_parse test_env fname))"
proof -
  have run: "fst (upload test_env (test_service mem_Client)
          (Some \<lparr>filename = Some ''photo.png'', mimeType = ''image/png'', content = [1, 258]\<rparr>)
          empty_world) =
     Resolved \<lparr>url = ''https://minio.test:9000/medusa-media/photo-01ARZ3NDEKTSV4RRFFQ69G5FAV.png'',
               key = ''photo-01ARZ3NDEKTSV4RRFFQ69G5FAV.png''\<rparr>"
    by (simp add: upload_def falsy_def str_def test_env_def test_service_def mem_Client_def
        empty_world_def invoke_def logger_def Let_def Buffer_from_binary_def)
  have parts: "name (path_parse test_env ''photo.png'') = ''photo''"
    "ext (path_parse test_env ''photo.png'') = ''.png''"
    "fst (ulid test_env (store empty_world)) = ''01ARZ3NDEKTSV4RRFFQ69G5FAV''"
    by (simp_all add: test_env_def)
  from upload_key_and_url [THEN mp, OF run] obtain f fname where
    "Some \<lparr>filename = Some ''photo.png'', mimeType = ''image/png'', content = [1, 258]\<rparr> = Some f"
    "filename f = Some fname"
    "key \<lparr>url = ''https://minio.test:9000/medusa-media/photo-01ARZ3NDEKTSV4RRFFQ69G5FAV.png'',
           key = ''photo-01ARZ3NDEKTSV4RRFFQ69G5FAV.png''\<rparr> =
        name (path_parse test_env fname) @ ''-'' @ fst (ulid test_env (store empty_world))
        @ ext (path_parse test_env fname)"
    by blast
  then have "\<exists>f fname.
      Some \<lparr>filename = Some ''photo.png'', mimeType = ''image/png'', content = [1, 258]\<rparr> = Some f \<and>
      filename f = Some fname \<and>
      key \<lparr>url = ''https://minio.test:9000/medusa-media/photo-01ARZ3NDEKTSV4RRFFQ69G5FAV.png'',
           key = ''photo-01ARZ3NDEKTSV4RRFFQ69G5FAV.png''\<rparr> =
        name (path_parse test_env fname) @ ''-'' @ fst (ulid test_env (store empty_world))
        @ ext (path_parse test_env fname)"
    by blast
  with run parts show ?thesis by simp
qed

section \<open>Properties of the featured products\<close>

text \<open>
  Claim C10. When both fetches return, the component yields \<open>null\<close> if the collections
  are absent or there is no region for the country code; otherwise it yields one list
  with one item per fetched collection, in the fetched order, each item keyed by the id
  of its collection and holding the product rail of that collection and the region.
\<close>

theorem featured_products_render:
  "listCollections dl [(''limit'', ''3''), (''fields'', ''*products'')] = Inr collections \<and>
   getRegion dl countryCode = Inr region \<longrightarrow>
     (collections = None \<or> region = None \<longrightarrow>
        fst (FeaturedProducts dl countryCode out) = Resolved None) \<and>
     (\<forall>cs r. collections = Some cs \<and> region = Some r \<longrightarrow>
        fst (FeaturedProducts dl countryCode out) =
          Resolved (Some (Ul ''flex flex-col gap-x-6 bg-neutral-100''
                            (map (\<lambda>c. Li (col_id c) (ProductRail c r)) cs))))"
  by (auto simp: FeaturedProducts_def Let_def split: option.splits)

theorem featured_products_render_witness:
  "listCollections test_data_layer [(''limit'', ''3''), (''fields'', ''*products'')] =
     Inr (Some [StoreCollection ''c1'' ''Sale'' (Some [1, 2]), StoreCollection ''c2'' ''New'' None]) \<and>
   getRegion test_data_layer ''gb'' = Inr (Some (StoreRegion ''reg_gb'')) \<and>
   fst (FeaturedProducts test_data_layer ''gb'' []) =
     Resolved (Some (Ul ''flex flex-col gap-x-6 bg-neutral-100''
       [Li ''c1'' (ProductRail (StoreCollection ''c1'' ''Sale'' (Some [1, 2])) (StoreRegion ''reg_gb'')),
        Li ''c2'' (ProductRail (StoreCollection ''c2'' ''New'' None) (StoreRegion ''reg_gb''))])) \<and>
   getRegion test_data_layer ''fr'' = Inr None \<and>
   fst (FeaturedProducts test_data_layer ''fr'' []) = Resolved None"
  using featured_products_render
    [where dl = test_data_layer and countryCode = "''gb''" and out = "[]"
       and collections = "Some [StoreCollection ''c1'' ''Sale'' (Some [1, 2]),
                                StoreCollection ''c2'' ''New'' None]"
       and region = "Some (StoreRegion ''reg_gb'')"]
    featured_products_render
    [where dl = test_data_layer and countryCode = "''fr''" and out = "[]"
       and collections = "Some [StoreCollection ''c1'' ''Sale'' (Some [1, 2]),
                                StoreCollection ''c2'' ''New'' None]"
       and region = None]
  by (simp add: test_data_layer_def)

end
